theory Spec2Isabelle
  imports Complex_Main
begin

section \<open>Lookahead pagination (infra.utils: paginationHelper, paginate, paginatedBuilder)\<close>

text \<open>
  \<^verbatim>\<open>PaginationResult<Entity>\<close> is \<^verbatim>\<open>{ items, hasNextPage }\<close>. Page sizes and
  offsets are counts, modelled as \<open>nat\<close>; an optional \<^verbatim>\<open>skip\<close> or \<^verbatim>\<open>mode\<close> is an
  \<open>option\<close> (\<open>None\<close> is \<^verbatim>\<open>undefined\<close>).
\<close>

record 'e PaginationResult =
  items :: "'e list"
  hasNextPage :: bool

text \<open>
  \<^verbatim>\<open>const hasNextPage = items.length > take; items.splice(take); return { items, hasNextPage }\<close>.
  \<^verbatim>\<open>splice(take)\<close> removes every element from index \<^verbatim>\<open>take\<close> on, which keeps the first
  \<^verbatim>\<open>take\<close> elements.
\<close>

definition paginationHelper :: "'e list \<Rightarrow> nat \<Rightarrow> 'e PaginationResult" where
  "paginationHelper its take_n =
     \<lparr>items = take take_n its, hasNextPage = (length its > take_n)\<rparr>"

text \<open>
  The part of TypeORM's \<^verbatim>\<open>FindManyOptions\<close> that \<^verbatim>\<open>paginate\<close> touches: a row filter
  and the optional \<^verbatim>\<open>take\<close> and \<^verbatim>\<open>skip\<close>. The repository is the list of its rows in
  the (deterministic) order of the query.
\<close>

record 'e FindManyOptions =
  fm_where :: "('e \<Rightarrow> bool) option"
  fm_take :: "nat option"
  fm_skip :: "nat option"

definition matching :: "'e FindManyOptions \<Rightarrow> 'e list \<Rightarrow> 'e list" where
  "matching opts repository =
     (case fm_where opts of None \<Rightarrow> repository | Some p \<Rightarrow> filter p repository)"

definition repository_find :: "'e list \<Rightarrow> 'e FindManyOptions \<Rightarrow> 'e list" where
  "repository_find repository opts =
     (let skipped = (case fm_skip opts of None \<Rightarrow> matching opts repository
                     | Some s \<Rightarrow> drop s (matching opts repository))
      in case fm_take opts of None \<Rightarrow> skipped | Some t \<Rightarrow> take t skipped)"

text \<open>
  \<^verbatim>\<open>_.omitBy({ ...searchOptions, take: take + 1, skip }, _.isUndefined)\<close>: the caller's
  options with \<^verbatim>\<open>take\<close> and \<^verbatim>\<open>skip\<close> overridden; an undefined \<^verbatim>\<open>skip\<close> is dropped
  from the object, so no offset is requested.
\<close>

definition paginate_request ::
  "nat \<Rightarrow> nat option \<Rightarrow> 'e FindManyOptions option \<Rightarrow> 'e FindManyOptions" where
  "paginate_request take_n skip_n searchOptions =
     (case searchOptions of
        None \<Rightarrow> \<lparr>fm_where = None, fm_take = Some (take_n + 1), fm_skip = skip_n\<rparr>
      | Some so \<Rightarrow> so\<lparr>fm_take := Some (take_n + 1), fm_skip := skip_n\<rparr>)"

definition paginate ::
  "'e list \<Rightarrow> nat \<Rightarrow> nat option \<Rightarrow> 'e FindManyOptions option \<Rightarrow> 'e PaginationResult" where
  "paginate repository take_n skip_n searchOptions =
     paginationHelper
       (repository_find repository (paginate_request take_n skip_n searchOptions)) take_n"

text \<open>
  \<^verbatim>\<open>PaginationMode\<close> comes from domain.util, which is not among the sources; the two
  branches of \<^verbatim>\<open>paginatedBuilder\<close> fix what is needed of it: \<^verbatim>\<open>LIMIT_OFFSET\<close> and the
  other (skip/take) mode. An absent \<^verbatim>\<open>mode\<close> takes the \<^verbatim>\<open>else\<close> branch as well.
\<close>

datatype PaginationMode = LIMIT_OFFSET | SKIP_TAKE

text \<open>
  A \<^verbatim>\<open>SelectQueryBuilder\<close>: the ordered rows its query selects, and the four pagination
  settings. On a query without joins TypeORM's \<^verbatim>\<open>getMany\<close> pages with \<^verbatim>\<open>limit\<close> and
  \<^verbatim>\<open>offset\<close> when one of them is set, and with \<^verbatim>\<open>take\<close> and \<^verbatim>\<open>skip\<close> only when
  neither is. It tests the settings for truthiness, so a setting of 0 counts as not set:
  \<^verbatim>\<open>take(0)\<close> and \<^verbatim>\<open>limit(0)\<close> put no bound on the rows.
\<close>

record 'e SelectQueryBuilder =
  qb_rows :: "'e list"
  qb_limit :: "nat option"
  qb_offset :: "nat option"
  qb_skip :: "nat option"
  qb_take :: "nat option"

definition drop_opt :: "nat option \<Rightarrow> 'e list \<Rightarrow> 'e list" where
  "drop_opt n xs = (case n of None \<Rightarrow> xs | Some k \<Rightarrow> drop k xs)"

definition take_opt :: "nat option \<Rightarrow> 'e list \<Rightarrow> 'e list" where
  "take_opt n xs = (case n of None \<Rightarrow> xs | Some k \<Rightarrow> take k xs)"

definition is_set :: "nat option \<Rightarrow> bool" where
  "is_set n = (case n of None \<Rightarrow> False | Some k \<Rightarrow> k > 0)"

definition limit_rows :: "nat option \<Rightarrow> 'e list \<Rightarrow> 'e list" where
  "limit_rows n xs = (case n of None \<Rightarrow> xs | Some k \<Rightarrow> if k = 0 then xs else take k xs)"

definition getMany :: "'e SelectQueryBuilder \<Rightarrow> 'e list" where
  "getMany qb =
     (if is_set (qb_offset qb) \<or> is_set (qb_limit qb)
      then limit_rows (qb_limit qb) (drop_opt (qb_offset qb) (qb_rows qb))
      else limit_rows (qb_take qb) (drop_opt (qb_skip qb) (qb_rows qb)))"

text \<open>
  \<^verbatim>\<open>if (mode === PaginationMode.LIMIT_OFFSET) { qb.limit(take + 1).offset(skip); }
  else { qb.skip(take + 1).take(skip); }\<close>
  The \<^verbatim>\<open>else\<close> branch is modelled as written: it skips \<^verbatim>\<open>take + 1\<close> rows and takes
  \<^verbatim>\<open>skip\<close> rows.
\<close>

definition paginatedBuilder ::
  "'e SelectQueryBuilder \<Rightarrow> nat \<Rightarrow> nat option \<Rightarrow> PaginationMode option \<Rightarrow> 'e PaginationResult" where
  "paginatedBuilder qb take_n skip_n mode =
     (let qb' = (if mode = Some LIMIT_OFFSET
                 then qb\<lparr>qb_limit := Some (take_n + 1), qb_offset := skip_n\<rparr>
                 else qb\<lparr>qb_skip := Some (take_n + 1), qb_take := skip_n\<rparr>)
      in paginationHelper (getMany qb') take_n)"

definition fresh_builder :: "'e list \<Rightarrow> 'e SelectQueryBuilder" where
  "fresh_builder rows =
     \<lparr>qb_rows = rows, qb_limit = None, qb_offset = None, qb_skip = None, qb_take = None\<rparr>"

definition skip_count :: "nat option \<Rightarrow> nat" where
  "skip_count skip_n = (case skip_n of None \<Rightarrow> 0 | Some s \<Rightarrow> s)"

definition stored_matching :: "'e FindManyOptions option \<Rightarrow> 'e list \<Rightarrow> 'e list" where
  "stored_matching searchOptions repository =
     (case searchOptions of None \<Rightarrow> repository | Some so \<Rightarrow> matching so repository)"

section \<open>Asset search filter (infra.utils: OptionalBetween, searchAssetBuilder)\<close>

text \<open>
  The option interfaces of search.repository.ts. Every field is optional there; \<open>None\<close>
  is \<^verbatim>\<open>undefined\<close>. A \<^verbatim>\<open>Date\<close> is its time value, a \<^verbatim>\<open>Buffer\<close> its bytes, an
  \<^verbatim>\<open>AssetType\<close> its string.
\<close>

type_synonym Date = int

record SearchDateOptions =
  createdBefore :: "Date option"
  createdAfter :: "Date option"
  takenBefore :: "Date option"
  takenAfter :: "Date option"
  trashedBefore :: "Date option"
  trashedAfter :: "Date option"
  updatedBefore :: "Date option"
  updatedAfter :: "Date option"

record SearchIDOptions =
  checksum :: "nat list option"
  deviceAssetId :: "string option"
  deviceId :: "string option"
  assetId_id :: "string option"
  libraryId :: "string option"
  ownerId :: "string option"

record SearchExifOptions =
  city :: "string option"
  country :: "string option"
  lensModel :: "string option"
  exifMake :: "string option"
  model :: "string option"
  state :: "string option"

record SearchPathOptions =
  encodedVideoPath :: "string option"
  originalFileName :: "string option"
  originalPath :: "string option"
  resizePath :: "string option"
  webpPath :: "string option"

record SearchRelationOptions =
  withExif :: "bool option"
  withSmartInfo :: "bool option"
  withFaces :: "bool option"
  withPeople :: "bool option"
  withStacked :: "bool option"

record SearchStatusOptions =
  isArchived :: "bool option"
  isEncoded :: "bool option"
  isExternal :: "bool option"
  isFavorite :: "bool option"
  isMotion :: "bool option"
  isOffline :: "bool option"
  isReadOnly :: "bool option"
  isVisible :: "bool option"
  assetType :: "string option"
  withArchived :: "bool option"
  withDeleted :: "bool option"

record AssetSearchBuilderOptions =
  date :: "SearchDateOptions option"
  idOptions :: "SearchIDOptions option"
  exif :: "SearchExifOptions option"
  path :: "SearchPathOptions option"
  relation :: "SearchRelationOptions option"
  status :: "SearchStatusOptions option"

text \<open>
  A where-object maps property names to TypeORM find operators; a plain value is an
  equality. The query builder is modelled by what \<^verbatim>\<open>searchAssetBuilder\<close> does to it: the
  where-objects passed to \<^verbatim>\<open>andWhere\<close>, the joins, and the \<^verbatim>\<open>withDeleted()\<close> switch
  that makes soft-deleted rows eligible.
\<close>

datatype fieldval = VString string | VBool bool | VDate Date | VBuffer "nat list"

datatype find_operator =
    Equal fieldval
  | Between fieldval fieldval
  | MoreThanOrEqual fieldval
  | LessThanOrEqual fieldval
  | NotIsNull

type_synonym where_object = "(string \<times> find_operator) list"

datatype join = LeftJoin string string | LeftJoinAndSelect string string

record AssetQueryBuilder =
  builderAlias :: string
  wheres :: "where_object list"
  joins :: "join list"
  withDeletedSet :: bool

definition andWhere :: "where_object \<Rightarrow> AssetQueryBuilder \<Rightarrow> AssetQueryBuilder" where
  "andWhere w builder = builder\<lparr>wheres := wheres builder @ [w]\<rparr>"

definition leftJoin :: "string \<Rightarrow> string \<Rightarrow> AssetQueryBuilder \<Rightarrow> AssetQueryBuilder" where
  "leftJoin prop al builder = builder\<lparr>joins := joins builder @ [LeftJoin prop al]\<rparr>"

definition leftJoinAndSelect :: "string \<Rightarrow> string \<Rightarrow> AssetQueryBuilder \<Rightarrow> AssetQueryBuilder" where
  "leftJoinAndSelect prop al builder =
     builder\<lparr>joins := joins builder @ [LeftJoinAndSelect prop al]\<rparr>"

text \<open>
  \<^verbatim>\<open>OptionalBetween(from, to)\<close>: \<^verbatim>\<open>Between\<close> when both are given, one-sided otherwise,
  \<^verbatim>\<open>undefined\<close> when neither is. It is applied to dates, which are truthy when present.
\<close>

definition OptionalBetween :: "Date option \<Rightarrow> Date option \<Rightarrow> find_operator option" where
  "OptionalBetween from to =
     (case (from, to) of
        (Some f, Some t) \<Rightarrow> Some (Between (VDate f) (VDate t))
      | (Some f, None) \<Rightarrow> Some (MoreThanOrEqual (VDate f))
      | (None, Some t) \<Rightarrow> Some (LessThanOrEqual (VDate t))
      | (None, None) \<Rightarrow> None)"

text \<open>\<^verbatim>\<open>_.omitBy(object, _.isUndefined)\<close>: the properties whose value is not undefined.\<close>

fun omitBy_isUndefined :: "(string \<times> 'a option) list \<Rightarrow> (string \<times> 'a) list" where
  "omitBy_isUndefined [] = []"
| "omitBy_isUndefined ((k, None) # kvs) = omitBy_isUndefined kvs"
| "omitBy_isUndefined ((k, Some v) # kvs) = (k, v) # omitBy_isUndefined kvs"

definition eq_string :: "string option \<Rightarrow> find_operator option" where
  "eq_string v = map_option (\<lambda>s. Equal (VString s)) v"

definition eq_bool :: "bool option \<Rightarrow> find_operator option" where
  "eq_bool v = map_option (\<lambda>b. Equal (VBool b)) v"

definition date_where :: "SearchDateOptions \<Rightarrow> where_object" where
  "date_where d = omitBy_isUndefined
     [(''createdAt'', OptionalBetween (createdAfter d) (createdBefore d)),
      (''updatedAt'', OptionalBetween (updatedAfter d) (updatedBefore d)),
      (''deletedAt'', OptionalBetween (trashedAfter d) (trashedBefore d)),
      (''fileCreatedAt'', OptionalBetween (takenAfter d) (takenBefore d))]"

definition exif_where :: "SearchExifOptions \<Rightarrow> where_object" where
  "exif_where e = omitBy_isUndefined
     [(''city'', eq_string (city e)), (''country'', eq_string (country e)),
      (''lensModel'', eq_string (lensModel e)), (''make'', eq_string (exifMake e)),
      (''model'', eq_string (model e)), (''state'', eq_string (state e))]"

definition id_where :: "SearchIDOptions \<Rightarrow> where_object" where
  "id_where i = omitBy_isUndefined
     [(''checksum'', map_option (\<lambda>b. Equal (VBuffer b)) (checksum i)),
      (''deviceAssetId'', eq_string (deviceAssetId i)), (''deviceId'', eq_string (deviceId i)),
      (''id'', eq_string (assetId_id i)), (''libraryId'', eq_string (libraryId i)),
      (''ownerId'', eq_string (ownerId i))]"

definition path_where :: "SearchPathOptions \<Rightarrow> where_object" where
  "path_where p = omitBy_isUndefined
     [(''encodedVideoPath'', eq_string (encodedVideoPath p)),
      (''originalFileName'', eq_string (originalFileName p)),
      (''originalPath'', eq_string (originalPath p)),
      (''resizePath'', eq_string (resizePath p)), (''webpPath'', eq_string (webpPath p))]"

text \<open>
  \<^verbatim>\<open>const { isEncoded, isMotion, ...otherStatuses } = status\<close>: every status property
  but those two goes into the where-object.
\<close>

definition otherStatuses_where :: "SearchStatusOptions \<Rightarrow> where_object" where
  "otherStatuses_where st = omitBy_isUndefined
     [(''isArchived'', eq_bool (isArchived st)), (''isExternal'', eq_bool (isExternal st)),
      (''isFavorite'', eq_bool (isFavorite st)), (''isOffline'', eq_bool (isOffline st)),
      (''isReadOnly'', eq_bool (isReadOnly st)), (''isVisible'', eq_bool (isVisible st)),
      (''type'', eq_string (assetType st)), (''withArchived'', eq_bool (withArchived st)),
      (''withDeleted'', eq_bool (withDeleted st))]"

text \<open>JavaScript truthiness of an optional boolean and of an optional string.\<close>

definition truthy_bool :: "bool option \<Rightarrow> bool" where
  "truthy_bool b = (b = Some True)"

definition truthy_string :: "string option \<Rightarrow> bool" where
  "truthy_string s = (case s of None \<Rightarrow> False | Some v \<Rightarrow> v \<noteq> [])"

definition apply_date :: "SearchDateOptions option \<Rightarrow> AssetQueryBuilder \<Rightarrow> AssetQueryBuilder" where
  "apply_date d builder = (case d of None \<Rightarrow> builder | Some dt \<Rightarrow> andWhere (date_where dt) builder)"

definition apply_exif :: "SearchExifOptions option \<Rightarrow> AssetQueryBuilder \<Rightarrow> AssetQueryBuilder" where
  "apply_exif e builder =
     (case e of None \<Rightarrow> builder
      | Some ex \<Rightarrow>
          (let b1 = andWhere (exif_where ex) builder
           in if length (exif_where ex) > 0 then leftJoin (builderAlias b1 @ ''.exifInfo'') ''exifInfo'' b1
              else b1))"

definition apply_id :: "SearchIDOptions option \<Rightarrow> AssetQueryBuilder \<Rightarrow> AssetQueryBuilder" where
  "apply_id i builder = (case i of None \<Rightarrow> builder | Some ids \<Rightarrow> andWhere (id_where ids) builder)"

definition apply_path :: "SearchPathOptions option \<Rightarrow> AssetQueryBuilder \<Rightarrow> AssetQueryBuilder" where
  "apply_path p builder = (case p of None \<Rightarrow> builder | Some pt \<Rightarrow> andWhere (path_where pt) builder)"

text \<open>
  \<^verbatim>\<open>if (isEncoded && !path?.encodedVideoPath) builder.andWhere({ encodedVideoPath: Not(IsNull()) })\<close>
  and \<^verbatim>\<open>if (isMotion) builder.andWhere({ livePhotoVideoId: Not(IsNull()) })\<close>.
\<close>

definition path_encodedVideoPath :: "SearchPathOptions option \<Rightarrow> string option" where
  "path_encodedVideoPath p = (case p of None \<Rightarrow> None | Some pt \<Rightarrow> encodedVideoPath pt)"

definition apply_status ::
  "SearchStatusOptions option \<Rightarrow> SearchPathOptions option \<Rightarrow> AssetQueryBuilder \<Rightarrow> AssetQueryBuilder" where
  "apply_status s p builder =
     (case s of None \<Rightarrow> builder
      | Some st \<Rightarrow>
          (let b1 = andWhere (otherStatuses_where st) builder;
               b2 = (if truthy_bool (isEncoded st) \<and> \<not> truthy_string (path_encodedVideoPath p)
                     then andWhere [(''encodedVideoPath'', NotIsNull)] b1 else b1)
           in if truthy_bool (isMotion st)
              then andWhere [(''livePhotoVideoId'', NotIsNull)] b2 else b2))"

definition apply_relation ::
  "SearchRelationOptions option \<Rightarrow> AssetQueryBuilder \<Rightarrow> AssetQueryBuilder" where
  "apply_relation r builder =
     (case r of None \<Rightarrow> builder
      | Some rel \<Rightarrow>
          (let b1 = (if truthy_bool (withExif rel)
                     then leftJoinAndSelect (builderAlias builder @ ''.exifInfo'') ''exifInfo'' builder
                     else builder);
               b2 = (if truthy_bool (withFaces rel) \<or> truthy_bool (withPeople rel)
                     then leftJoinAndSelect (builderAlias b1 @ ''.faces'') ''faces'' b1 else b1);
               b3 = (if truthy_bool (withPeople rel)
                     then leftJoinAndSelect (builderAlias b2 @ ''.person'') ''person'' b2 else b2);
               b4 = (if truthy_bool (withSmartInfo rel)
                     then leftJoinAndSelect (builderAlias b3 @ ''.smartInfo'') ''smartInfo'' b3 else b3)
           in if truthy_bool (withStacked rel)
              then leftJoinAndSelect (builderAlias b4 @ ''.stack'') ''stack'' b4 else b4))"

text \<open>
  \<^verbatim>\<open>const withDeleted = status?.withDeleted ??
     (date?.trashedAfter !== undefined || date?.trashedBefore !== undefined)\<close>:
  the status flag when it is supplied, else whether a trashed-date bound is.
\<close>

definition status_withDeleted :: "SearchStatusOptions option \<Rightarrow> bool option" where
  "status_withDeleted s = (case s of None \<Rightarrow> None | Some st \<Rightarrow> withDeleted st)"

definition date_trashedAfter :: "SearchDateOptions option \<Rightarrow> Date option" where
  "date_trashedAfter d = (case d of None \<Rightarrow> None | Some dt \<Rightarrow> trashedAfter dt)"

definition date_trashedBefore :: "SearchDateOptions option \<Rightarrow> Date option" where
  "date_trashedBefore d = (case d of None \<Rightarrow> None | Some dt \<Rightarrow> trashedBefore dt)"

definition withDeleted_decision :: "AssetSearchBuilderOptions \<Rightarrow> bool" where
  "withDeleted_decision options =
     (case status_withDeleted (status options) of
        Some v \<Rightarrow> v
      | None \<Rightarrow> date_trashedAfter (date options) \<noteq> None
                \<or> date_trashedBefore (date options) \<noteq> None)"

definition searchAssetBuilder ::
  "AssetQueryBuilder \<Rightarrow> AssetSearchBuilderOptions \<Rightarrow> AssetQueryBuilder" where
  "searchAssetBuilder builder options =
     (let b1 = apply_date (date options) builder;
          b2 = apply_exif (exif options) b1;
          b3 = apply_id (idOptions options) b2;
          b4 = apply_path (path options) b3;
          b5 = apply_status (status options) (path options) b4;
          b6 = apply_relation (relation options) b5
      in if withDeleted_decision options then b6\<lparr>withDeletedSet := True\<rparr> else b6)"

text \<open>Concrete builders and filters used to evaluate \<^verbatim>\<open>searchAssetBuilder\<close>.\<close>

definition no_date :: SearchDateOptions where
  "no_date = \<lparr>createdBefore = None, createdAfter = None, takenBefore = None, takenAfter = None,
      trashedBefore = None, trashedAfter = None, updatedBefore = None, updatedAfter = None\<rparr>"

definition no_path :: SearchPathOptions where
  "no_path = \<lparr>encodedVideoPath = None, originalFileName = None, originalPath = None,
      resizePath = None, webpPath = None\<rparr>"

definition no_status :: SearchStatusOptions where
  "no_status = \<lparr>isArchived = None, isEncoded = None, isExternal = None, isFavorite = None,
      isMotion = None, isOffline = None, isReadOnly = None, isVisible = None, assetType = None,
      withArchived = None, withDeleted = None\<rparr>"

definition no_options :: AssetSearchBuilderOptions where
  "no_options = \<lparr>date = None, idOptions = None, exif = None, path = None, relation = None,
      status = None\<rparr>"

definition new_builder :: "string \<Rightarrow> AssetQueryBuilder" where
  "new_builder a = \<lparr>builderAlias = a, wheres = [], joins = [], withDeletedSet = False\<rparr>"

definition trashed_but_not_deleted :: AssetSearchBuilderOptions where
  "trashed_but_not_deleted =
     no_options\<lparr>date := Some (no_date\<lparr>trashedAfter := Some 0\<rparr>),
                status := Some (no_status\<lparr>withDeleted := Some False\<rparr>)\<rparr>"

definition trashed_only :: AssetSearchBuilderOptions where
  "trashed_only = no_options\<lparr>date := Some (no_date\<lparr>trashedAfter := Some 0\<rparr>)\<rparr>"

definition encoded_with_empty_path :: AssetSearchBuilderOptions where
  "encoded_with_empty_path =
     no_options\<lparr>path := Some (no_path\<lparr>encodedVideoPath := Some ''''\<rparr>),
                status := Some (no_status\<lparr>isEncoded := Some True\<rparr>)\<rparr>"

definition encoded_clause_in :: "AssetQueryBuilder \<Rightarrow> bool" where
  "encoded_clause_in b = ([(''encodedVideoPath'', NotIsNull)] \<in> set (wheres b))"

section \<open>Extension version gate (DatabaseService)\<close>

datatype DatabaseExtension = CUBE | EARTH_DISTANCE | VECTOR | VECTORS

text \<open>
  \<^verbatim>\<open>VersionType\<close> in the order the service relies on: \<^verbatim>\<open>VersionType[maxVersion + 1]\<close>
  names the next finer precision, so \<^verbatim>\<open>MAJOR\<close>, \<^verbatim>\<open>MINOR\<close>, \<^verbatim>\<open>PATCH\<close> are 0, 1, 2.
  Version fields are the decimal numbers of a version string.
\<close>

datatype VersionType = MAJOR | MINOR | PATCH

record Version =
  major :: nat
  minor :: nat
  patch :: nat

text \<open>
  Modelled from the spec: the \<^verbatim>\<open>Version\<close> class (domain.constant) is not among the
  sources. The spec has versions totally ordered by major, then minor, then patch, with
  \<^verbatim>\<open>isOlderThan\<close> and \<^verbatim>\<open>isNewerThan\<close>, and a comparison at a pinned precision that looks
  only at the fields at or above that precision. \<^verbatim>\<open>isNewerThan\<close> without a precision is the
  comparison of all three fields.
\<close>

definition isOlderThan :: "Version \<Rightarrow> Version \<Rightarrow> bool" where
  "isOlderThan v w =
     (major v < major w
      \<or> (major v = major w \<and> (minor v < minor w \<or> (minor v = minor w \<and> patch v < patch w))))"

fun isNewerThan :: "Version \<Rightarrow> Version \<Rightarrow> VersionType \<Rightarrow> bool" where
  "isNewerThan v w MAJOR = (major v > major w)"
| "isNewerThan v w MINOR = (major v > major w \<or> (major v = major w \<and> minor v > minor w))"
| "isNewerThan v w PATCH =
     (major v > major w
      \<or> (major v = major w \<and> (minor v > minor w \<or> (minor v = minor w \<and> patch v > patch w))))"

text \<open>\<^verbatim>\<open>maxVectorsVersion: Version | VersionType\<close>: an explicit maximum or a pin precision.\<close>

datatype max_version = MaxVersion Version | MaxType VersionType

record DatabaseService =
  minPostgresVersion :: nat
  minVectorsVersion :: Version
  maxVectorsVersion :: max_version
  minVectorVersion :: Version
  maxVectorVersion :: max_version

definition version :: "nat \<Rightarrow> nat \<Rightarrow> nat \<Rightarrow> Version" where
  "version a b c = \<lparr>major = a, minor = b, patch = c\<rparr>"

text \<open>The field initialisers of the class.\<close>

definition default_service :: DatabaseService where
  "default_service =
     \<lparr>minPostgresVersion = 14,
      minVectorsVersion = version 0 0 0, maxVectorsVersion = MaxType MINOR,
      minVectorVersion = version 0 5 0, maxVectorVersion = MaxType MAJOR\<rparr>"

datatype db_error = PostgresTooOld nat nat | ExtensionNotInstalled | QueryFailed | VersionRejected

datatype log_entry = Fatal | Warn

datatype repo_call =
    GetPostgresVersion
  | CreateExtension DatabaseExtension
  | GetExtensionVersion DatabaseExtension
  | GetAvailableExtensionVersion DatabaseExtension
  | UpdateExtension DatabaseExtension Version
  | RunMigrations

text \<open>
  \<^verbatim>\<open>updateExtension\<close> is the one repository method that \<^verbatim>\<open>init\<close> calls without
  \<^verbatim>\<open>await\<close>. Such a call either throws at once, or returns a promise that nobody waits
  for: \<^verbatim>\<open>init\<close> then sees neither its completion nor its rejection. The state that
  comes with either outcome is the repository as the call leaves it; with a promise the
  update is merely under way, and what the next read of the version finds is the
  repository's affair.
\<close>

datatype 'r unawaited = ThrewAtOnce db_error 'r | PromiseReturned 'r

text \<open>
  The service talks to the database through the injected \<^verbatim>\<open>IDatabaseRepository\<close> only.
  The repository is a parameter: its methods over a repository state \<open>'r\<close>, the awaited
  writing ones returning an error (a rejection) or nothing, and the new state.
\<close>

record 'r IDatabaseRepository =
  getPostgresVersion :: "'r \<Rightarrow> Version"
  getExtensionVersion :: "DatabaseExtension \<Rightarrow> 'r \<Rightarrow> Version option"
  getAvailableExtensionVersion :: "DatabaseExtension \<Rightarrow> 'r \<Rightarrow> Version option"
  createExtension :: "DatabaseExtension \<Rightarrow> 'r \<Rightarrow> db_error option \<times> 'r"
  updateExtension :: "DatabaseExtension \<Rightarrow> Version \<Rightarrow> 'r \<Rightarrow> 'r unawaited"
  runMigrations :: "'r \<Rightarrow> db_error option \<times> 'r"

text \<open>
  What \<^verbatim>\<open>init\<close> acts on: the repository state, the repository calls made so far, and the
  logger's fatal and warning entries.
\<close>

record 'r world =
  repo :: 'r
  calls :: "repo_call list"
  logs :: "log_entry list"

definition called :: "repo_call \<Rightarrow> 'r world \<Rightarrow> 'r world" where
  "called c w = w\<lparr>calls := calls w @ [c]\<rparr>"

definition logged :: "log_entry \<Rightarrow> 'r world \<Rightarrow> 'r world" where
  "logged l w = w\<lparr>logs := logs w @ [l]\<rparr>"

definition assertPostgresql ::
  "DatabaseService \<Rightarrow> 'r IDatabaseRepository \<Rightarrow> 'r world \<Rightarrow> db_error option \<times> 'r world" where
  "assertPostgresql svc R w =
     (let pg = getPostgresVersion R (repo w); w1 = called GetPostgresVersion w
      in if major pg < minPostgresVersion svc
         then (Some (PostgresTooOld (major pg) (minPostgresVersion svc)), w1)
         else (None, w1))"

text \<open>
  \<^verbatim>\<open>createExtension(vectorExtension).catch(...)\<close>: a rejection is logged as fatal and
  thrown again.
\<close>

definition createVectorExtension ::
  "DatabaseExtension \<Rightarrow> 'r IDatabaseRepository \<Rightarrow> 'r world \<Rightarrow> db_error option \<times> 'r world" where
  "createVectorExtension vectorExtension R w =
     (case createExtension R vectorExtension (repo w) of
        (None, r') \<Rightarrow> (None, called (CreateExtension vectorExtension) (w\<lparr>repo := r'\<rparr>))
      | (Some err, r') \<Rightarrow>
          (Some err, logged Fatal (called (CreateExtension vectorExtension) (w\<lparr>repo := r'\<rparr>))))"

text \<open>
  \<^verbatim>\<open>updateVectorExtension\<close>: both versions are read; a missing one is an error. When the
  available version is newer,
  \<^verbatim>\<open>try { this.databaseRepository.updateExtension(vectorExtension, availableVersion); }
  catch (err) { this.logger.warn(...) }\<close>
  calls \<^verbatim>\<open>updateExtension\<close> without \<^verbatim>\<open>await\<close>: only an error thrown at once reaches the
  \<^verbatim>\<open>catch\<close> block and is logged as a warning. A returned promise is dropped, so its
  rejection logs nothing, and start-up goes on without waiting for the update.
\<close>

definition updateVectorExtension ::
  "DatabaseExtension \<Rightarrow> 'r IDatabaseRepository \<Rightarrow> 'r world \<Rightarrow> db_error option \<times> 'r world" where
  "updateVectorExtension vectorExtension R w =
     (let w1 = called (GetAvailableExtensionVersion vectorExtension)
                 (called (GetExtensionVersion vectorExtension) w)
      in case (getExtensionVersion R vectorExtension (repo w),
               getAvailableExtensionVersion R vectorExtension (repo w)) of
           (Some v, Some availableVersion) \<Rightarrow>
             (if isNewerThan availableVersion v PATCH
              then (case updateExtension R vectorExtension availableVersion (repo w1) of
                      PromiseReturned r' \<Rightarrow>
                        (None, called (UpdateExtension vectorExtension availableVersion)
                                 (w1\<lparr>repo := r'\<rparr>))
                    | ThrewAtOnce err r' \<Rightarrow>
                        (None, logged Warn
                                 (called (UpdateExtension vectorExtension availableVersion)
                                    (w1\<lparr>repo := r'\<rparr>))))
              else (None, w1))
         | _ \<Rightarrow> (Some ExtensionNotInstalled, w1))"

text \<open>
  The policy of the configured extension:
  \<^verbatim>\<open>vectorExtension === DatabaseExtension.VECTOR ? this.minVectorVersion : this.minVectorsVersion\<close>,
  and the same for the maximum.
\<close>

definition minVersion :: "DatabaseService \<Rightarrow> DatabaseExtension \<Rightarrow> Version" where
  "minVersion svc vectorExtension =
     (if vectorExtension = VECTOR then minVectorVersion svc else minVectorsVersion svc)"

definition maxVersion :: "DatabaseService \<Rightarrow> DatabaseExtension \<Rightarrow> max_version" where
  "maxVersion svc vectorExtension =
     (if vectorExtension = VECTOR then maxVectorVersion svc else maxVectorsVersion svc)"

text \<open>
  The decision of \<^verbatim>\<open>assertVectorExtension\<close> on the version it read. The test for version
  0.0.0 is commented out in the source and has no counterpart here. With an explicit
  maximum only \<^verbatim>\<open>isNewerThan(maxVersion)\<close> is tested; with a pin precision, \<^verbatim>\<open>isOlderThan(minVersion)\<close>
  and \<^verbatim>\<open>isNewerThan(minVersion, maxVersion)\<close>. A rejection logs a fatal entry and throws.
\<close>

definition checkVectorExtension ::
  "DatabaseService \<Rightarrow> DatabaseExtension \<Rightarrow> Version option \<Rightarrow> db_error option \<times> log_entry list" where
  "checkVectorExtension svc vectorExtension installed =
     (case installed of
        None \<Rightarrow> (Some ExtensionNotInstalled, [])
      | Some v \<Rightarrow>
          (case maxVersion svc vectorExtension of
             MaxVersion m \<Rightarrow>
               (if isNewerThan v m PATCH then (Some VersionRejected, [Fatal]) else (None, []))
           | MaxType t \<Rightarrow>
               (if isOlderThan v (minVersion svc vectorExtension)
                   \<or> isNewerThan v (minVersion svc vectorExtension) t
                then (Some VersionRejected, [Fatal]) else (None, []))))"

definition assertVectorExtension ::
  "DatabaseService \<Rightarrow> DatabaseExtension \<Rightarrow> 'r IDatabaseRepository \<Rightarrow> 'r world
     \<Rightarrow> db_error option \<times> 'r world" where
  "assertVectorExtension svc vectorExtension R w =
     (let w1 = called (GetExtensionVersion vectorExtension) w;
          (err, ls) = checkVectorExtension svc vectorExtension
                        (getExtensionVersion R vectorExtension (repo w))
      in (err, w1\<lparr>logs := logs w1 @ ls\<rparr>))"

definition runMigrations_step ::
  "'r IDatabaseRepository \<Rightarrow> 'r world \<Rightarrow> db_error option \<times> 'r world" where
  "runMigrations_step R w =
     (case runMigrations R (repo w) of (err, r') \<Rightarrow> (err, called RunMigrations (w\<lparr>repo := r'\<rparr>)))"

text \<open>Sequencing of awaited steps: the first error ends \<^verbatim>\<open>init\<close>.\<close>

definition and_then ::
  "db_error option \<times> 'w \<Rightarrow> ('w \<Rightarrow> db_error option \<times> 'w) \<Rightarrow> db_error option \<times> 'w" where
  "and_then r f = (case r of (None, w) \<Rightarrow> f w | (Some err, w) \<Rightarrow> (Some err, w))"

text \<open>Steps 1 to 3 of \<^verbatim>\<open>init\<close>, and \<^verbatim>\<open>init\<close>.\<close>

definition before_assert ::
  "DatabaseService \<Rightarrow> DatabaseExtension \<Rightarrow> 'r IDatabaseRepository \<Rightarrow> 'r world
     \<Rightarrow> db_error option \<times> 'r world" where
  "before_assert svc vectorExtension R w =
     and_then (and_then (assertPostgresql svc R w) (createVectorExtension vectorExtension R))
       (updateVectorExtension vectorExtension R)"

definition init ::
  "DatabaseService \<Rightarrow> DatabaseExtension \<Rightarrow> 'r IDatabaseRepository \<Rightarrow> 'r world
     \<Rightarrow> db_error option \<times> 'r world" where
  "init svc vectorExtension R w =
     and_then (and_then (before_assert svc vectorExtension R w)
                 (assertVectorExtension svc vectorExtension R))
       (runMigrations_step R)"

text \<open>
  A repository whose state is the installed extension version: PostgreSQL 14, every
  statement succeeds, the available version is the installed one (so no update is
  started; one that were would not have taken effect when its promise is returned).
\<close>

definition mock_repository :: "(Version option) IDatabaseRepository" where
  "mock_repository =
     \<lparr>getPostgresVersion = (\<lambda>r. version 14 0 0),
      getExtensionVersion = (\<lambda>e r. r),
      getAvailableExtensionVersion = (\<lambda>e r. r),
      createExtension = (\<lambda>e r. (None, r)),
      updateExtension = (\<lambda>e v r. PromiseReturned r),
      runMigrations = (\<lambda>r. (None, r))\<rparr>"

definition fresh_world :: "'r \<Rightarrow> 'r world" where
  "fresh_world r = \<lparr>repo = r, calls = [], logs = []\<rparr>"

text \<open>How often \<^verbatim>\<open>runMigrations\<close> has been called.\<close>

definition migrations_run :: "'r world \<Rightarrow> nat" where
  "migrations_run w = length (filter (\<lambda>c. c = RunMigrations) (calls w))"

section \<open>Validated integers (infra.utils: isValidInteger)\<close>

text \<open>
  A JavaScript \<^verbatim>\<open>number\<close>: a finite value, \<^verbatim>\<open>NaN\<close> or an infinity. Rounding of finite
  values plays no part in what follows, so they are rationals.
\<close>

datatype number = Num rat | NaN | PosInfinity | NegInfinity

fun isInteger :: "number \<Rightarrow> bool" where
  "isInteger (Num r) = (of_int \<lfloor>r\<rfloor> = r)"
| "isInteger _ = False"

fun num_ge :: "number \<Rightarrow> rat \<Rightarrow> bool" where
  "num_ge (Num r) m = (r \<ge> m)"
| "num_ge PosInfinity m = True"
| "num_ge _ m = False"

fun num_le :: "number \<Rightarrow> rat \<Rightarrow> bool" where
  "num_le (Num r) m = (r \<le> m)"
| "num_le NegInfinity m = True"
| "num_le _ m = False"

definition MAX_SAFE_INTEGER :: rat where
  "MAX_SAFE_INTEGER = 2 ^ 53 - 1"

definition MIN_SAFE_INTEGER :: rat where
  "MIN_SAFE_INTEGER = - (2 ^ 53 - 1)"

text \<open>
  \<^verbatim>\<open>const { min = Number.MIN_SAFE_INTEGER, max = Number.MAX_SAFE_INTEGER } = options;
  return Number.isInteger(value) && value >= min && value <= max;\<close>
\<close>

definition isValidInteger :: "number \<Rightarrow> rat option \<Rightarrow> rat option \<Rightarrow> bool" where
  "isValidInteger v min_opt max_opt =
     (let mn = (case min_opt of None \<Rightarrow> MIN_SAFE_INTEGER | Some m \<Rightarrow> m);
          mx = (case max_opt of None \<Rightarrow> MAX_SAFE_INTEGER | Some m \<Rightarrow> m)
      in isInteger v \<and> num_ge v mn \<and> num_le v mx)"

text \<open>\<^verbatim>\<open>===\<close> on numbers: \<^verbatim>\<open>NaN\<close> equals nothing.\<close>

fun strict_eq :: "number \<Rightarrow> number \<Rightarrow> bool" where
  "strict_eq NaN y = False"
| "strict_eq x NaN = False"
| "strict_eq x y = (x = y)"

section \<open>CLIP embedding dimension (DatabaseRepository.updateCLIPDimSize)\<close>

text \<open>
  The database as \<^verbatim>\<open>updateCLIPDimSize\<close> sees it: the rows that the catalog query of
  \<^verbatim>\<open>getCLIPDimSize\<close> returns (the \<^verbatim>\<open>atttypmod\<close> of \<^verbatim>\<open>smart_search.embedding\<close>), and the
  schema-changing statements executed so far. Log lines are left out.
\<close>

datatype statement =
    DropTable string
  | CreateSmartSearchTable DatabaseExtension number
  | SetPgvectorCompatibility
  | CreateIndex string

datatype clip_error = InvalidDimSize number | CouldNotRetrieveDimSize | TypeError

record clip_db =
  dimsize_rows :: "number list"
  executed :: "statement list"

text \<open>
  \<^verbatim>\<open>const dimSize = res[0]['dimsize']\<close> fails with a TypeError on an empty result; a value
  that is not an integer in [1, 2 ** 16] is refused.
\<close>

definition getCLIPDimSize :: "clip_db \<Rightarrow> clip_error + number" where
  "getCLIPDimSize db =
     (case dimsize_rows db of
        [] \<Rightarrow> Inl TypeError
      | dimSize # _ \<Rightarrow>
          (if \<not> isValidInteger dimSize (Some 1) (Some (2 ^ 16)) then Inl CouldNotRetrieveDimSize
           else Inr dimSize))"

text \<open>
  \<^verbatim>\<open>createCLIPIndex\<close>: the compatibility setting for pgvecto.rs, then the index.
\<close>

definition createCLIPIndex :: "DatabaseExtension \<Rightarrow> statement list" where
  "createCLIPIndex vectorExtension =
     (if vectorExtension = VECTORS then [SetPgvectorCompatibility] else []) @
     [CreateIndex ''clip_index'']"

text \<open>
  The transaction of \<^verbatim>\<open>updateCLIPDimSize\<close>: drop the table, create it with the new
  width, build the index (\<^verbatim>\<open>createCLIPIndex\<close> is called without \<^verbatim>\<open>await\<close>; its statements
  are taken to run). Afterwards the catalog reports the new width.
\<close>

definition recreate_smart_search :: "DatabaseExtension \<Rightarrow> number \<Rightarrow> clip_db \<Rightarrow> clip_db" where
  "recreate_smart_search vectorExtension dimSize db =
     \<lparr>dimsize_rows = [dimSize],
      executed = executed db @
        [DropTable ''smart_search'', CreateSmartSearchTable vectorExtension dimSize] @
        createCLIPIndex vectorExtension\<rparr>"

definition updateCLIPDimSize ::
  "DatabaseExtension \<Rightarrow> number \<Rightarrow> clip_db \<Rightarrow> clip_error option \<times> clip_db" where
  "updateCLIPDimSize vectorExtension dimSize db =
     (if \<not> isValidInteger dimSize (Some 1) (Some (2 ^ 16)) then (Some (InvalidDimSize dimSize), db)
      else case getCLIPDimSize db of
             Inl err \<Rightarrow> (Some err, db)
           | Inr curDimSize \<Rightarrow>
               (if strict_eq curDimSize dimSize then (None, db)
                else (None, recreate_smart_search vectorExtension dimSize db)))"

text \<open>Being an integer in [1, 65536], said without the code's helper.\<close>

definition integer_in_range :: "number \<Rightarrow> bool" where
  "integer_in_range v = (\<exists>k::int. v = Num (of_int k) \<and> 1 \<le> k \<and> k \<le> 65536)"

text \<open>A database whose catalog reports width 512.\<close>

definition clip_db_512 :: clip_db where
  "clip_db_512 = \<lparr>dimsize_rows = [Num 512], executed = []\<rparr>"

section \<open>Smart info and embeddings (SmartInfoRepository.upsert)\<close>

text \<open>
  \<^verbatim>\<open>Partial<SmartInfoEntity>\<close>: the optional \<^verbatim>\<open>assetId\<close> and the other columns, whose
  entity is not among the sources, as a payload. An \<^verbatim>\<open>Embedding\<close> is a \<^verbatim>\<open>number[]\<close>.
\<close>

record 'a SmartInfo =
  assetId :: "string option"
  columns :: 'a

type_synonym Embedding = "number list"

text \<open>
  \<^verbatim>\<open>asVector(embedding, quote)\<close>: the bracketed, comma-separated list, in single quotes
  when \<^verbatim>\<open>quote\<close> is set. How JavaScript prints a number is the parameter \<open>str\<close>.
\<close>

fun array_join :: "string \<Rightarrow> string list \<Rightarrow> string" where
  "array_join sep [] = []"
| "array_join sep [x] = x"
| "array_join sep (x # y # ys) = x @ sep @ array_join sep (y # ys)"

definition asVector :: "(number \<Rightarrow> string) \<Rightarrow> Embedding \<Rightarrow> bool \<Rightarrow> string" where
  "asVector str embedding quote =
     (if quote then [CHR 0x27] @ ''['' @ array_join '','' (map str embedding) @ '']'' @ [CHR 0x27]
      else ''['' @ array_join '','' (map str embedding) @ '']'')"

text \<open>
  The two tables behind the two TypeORM repositories. What an \<^verbatim>\<open>upsert\<close> of a repository
  does to its table, and whether it fails, belongs to TypeORM and the database: both
  \<^verbatim>\<open>upsert\<close>s are parameters, returning an error or the new table.
\<close>

record ('ti, 'ts) smart_tables =
  smart_info :: 'ti
  smart_search :: 'ts

text \<open>
  \<^verbatim>\<open>upsertEmbedding\<close> passes \<^verbatim>\<open>{ assetId, embedding: () => asVector(embedding, true) }\<close> to the
  \<^verbatim>\<open>smart_search\<close> repository.
\<close>

definition upsertEmbedding ::
  "(string \<Rightarrow> string \<Rightarrow> 'ts \<Rightarrow> db_error + 'ts) \<Rightarrow> (number \<Rightarrow> string) \<Rightarrow> string \<Rightarrow> Embedding
     \<Rightarrow> ('ti, 'ts) smart_tables \<Rightarrow> db_error option \<times> ('ti, 'ts) smart_tables" where
  "upsertEmbedding search_upsert str aid embedding db =
     (case search_upsert aid (asVector str embedding True) (smart_search db) of
        Inl err \<Rightarrow> (Some err, db)
      | Inr t \<Rightarrow> (None, db\<lparr>smart_search := t\<rparr>))"

text \<open>
  \<^verbatim>\<open>await this.repository.upsert(smartInfo, { conflictPaths: ['assetId'] });
  if (!smartInfo.assetId || !embedding) { return; }
  await this.upsertEmbedding(smartInfo.assetId, embedding);\<close>
  An absent or empty \<^verbatim>\<open>assetId\<close> is falsy; an array, even an empty one, is truthy.
\<close>

definition upsert ::
  "('a SmartInfo \<Rightarrow> 'ti \<Rightarrow> db_error + 'ti) \<Rightarrow> (string \<Rightarrow> string \<Rightarrow> 'ts \<Rightarrow> db_error + 'ts)
     \<Rightarrow> (number \<Rightarrow> string) \<Rightarrow> 'a SmartInfo \<Rightarrow> Embedding option
     \<Rightarrow> ('ti, 'ts) smart_tables \<Rightarrow> db_error option \<times> ('ti, 'ts) smart_tables" where
  "upsert info_upsert search_upsert str smartInfo embedding db =
     (case info_upsert smartInfo (smart_info db) of
        Inl err \<Rightarrow> (Some err, db)
      | Inr t \<Rightarrow>
          (case (assetId smartInfo, embedding) of
             (Some aid, Some e) \<Rightarrow>
               (if \<not> truthy_string (Some aid) then (None, db\<lparr>smart_info := t\<rparr>)
                else upsertEmbedding search_upsert str aid e (db\<lparr>smart_info := t\<rparr>))
           | _ \<Rightarrow> (None, db\<lparr>smart_info := t\<rparr>)))"

text \<open>
  Tables that keep every row written to them, for evaluation: the upserts append and
  never fail.
\<close>

definition append_info :: "'a SmartInfo \<Rightarrow> 'a SmartInfo list \<Rightarrow> db_error + 'a SmartInfo list" where
  "append_info si t = Inr (t @ [si])"

definition append_search ::
  "string \<Rightarrow> string \<Rightarrow> (string \<times> string) list \<Rightarrow> db_error + (string \<times> string) list" where
  "append_search aid v t = Inr (t @ [(aid, v)])"

definition empty_tables :: "('a SmartInfo list, (string \<times> string) list) smart_tables" where
  "empty_tables = \<lparr>smart_info = [], smart_search = []\<rparr>"

section \<open>Advisory locks (DatabaseRepository.withLock, isBusy)\<close>

text \<open>
  \<^verbatim>\<open>enum DatabaseLock { GeodataImport = 100, StorageTemplateMigration = 420, CLIPDimSize = 512 }\<close>.
  The process-local lock is keyed by the name \<^verbatim>\<open>DatabaseLock[lock]\<close>, the advisory lock of
  the database by the number.
\<close>

datatype DatabaseLock = GeodataImport | StorageTemplateMigration | CLIPDimSize

fun lock_number :: "DatabaseLock \<Rightarrow> nat" where
  "lock_number GeodataImport = 100"
| "lock_number StorageTemplateMigration = 420"
| "lock_number CLIPDimSize = 512"

fun lock_name :: "DatabaseLock \<Rightarrow> string" where
  "lock_name GeodataImport = ''GeodataImport''"
| "lock_name StorageTemplateMigration = ''StorageTemplateMigration''"
| "lock_name CLIPDimSize = ''CLIPDimSize''"

text \<open>
  The lock state of one process, as one caller at a time sees it: the keys that
  \<^verbatim>\<open>async-lock\<close> holds, the advisory locks the process holds in the database, the query
  runners created and not yet released, and the advisory statements sent so far.
\<close>

datatype lock_statement = AdvisoryLock nat | AdvisoryUnlock nat

record lock_state =
  busy :: "string set"
  advisory :: "nat set"
  runners :: nat
  issued :: "lock_statement list"

text \<open>
  Each of the three awaited database operations may fail; which of them do is given from
  outside. The callback may fail with an error of its own.
\<close>

record faults =
  acquireLock_fails :: bool
  releaseLock_fails :: bool
  runner_release_fails :: bool

datatype 'e lock_error = CallbackFailed 'e | AcquireFailed | ReleaseFailed | RunnerReleaseFailed

definition isBusy :: "lock_state \<Rightarrow> DatabaseLock \<Rightarrow> bool" where
  "isBusy s lock = (lock_name lock \<in> busy s)"

definition acquireLock ::
  "faults \<Rightarrow> DatabaseLock \<Rightarrow> lock_state \<Rightarrow> 'e lock_error option \<times> lock_state" where
  "acquireLock f lock s =
     (let s1 = s\<lparr>issued := issued s @ [AdvisoryLock (lock_number lock)]\<rparr>
      in if acquireLock_fails f then (Some AcquireFailed, s1)
         else (None, s1\<lparr>advisory := insert (lock_number lock) (advisory s1)\<rparr>))"

definition releaseLock ::
  "faults \<Rightarrow> DatabaseLock \<Rightarrow> lock_state \<Rightarrow> 'e lock_error option \<times> lock_state" where
  "releaseLock f lock s =
     (let s1 = s\<lparr>issued := issued s @ [AdvisoryUnlock (lock_number lock)]\<rparr>
      in if releaseLock_fails f then (Some ReleaseFailed, s1)
         else (None, s1\<lparr>advisory := advisory s1 - {lock_number lock}\<rparr>))"

definition queryRunner_release ::
  "faults \<Rightarrow> lock_state \<Rightarrow> 'e lock_error option \<times> lock_state" where
  "queryRunner_release f s =
     (if runner_release_fails f then (Some RunnerReleaseFailed, s)
      else (None, s\<lparr>runners := runners s - 1\<rparr>))"

text \<open>
  The function passed to \<^verbatim>\<open>asyncLock.acquire\<close>:
  \<^verbatim>\<open>const queryRunner = this.dataSource.createQueryRunner();
  try { await this.acquireLock(lock, queryRunner); res = await callback(); }
  finally { try { await this.releaseLock(lock, queryRunner); }
            finally { await queryRunner.release(); } }\<close>
  The callback runs only after the advisory lock was taken. Both \<^verbatim>\<open>finally\<close> blocks run
  on every path; an error thrown inside a \<^verbatim>\<open>finally\<close> block replaces the pending one.
  The callback sees the lock state and acts on a state \<open>'a\<close> of its own.
\<close>

definition locked_section ::
  "faults \<Rightarrow> DatabaseLock \<Rightarrow> (lock_state \<Rightarrow> 'a \<Rightarrow> ('e + 'r) \<times> 'a) \<Rightarrow> lock_state \<times> 'a
     \<Rightarrow> ('e lock_error + 'r) \<times> lock_state \<times> 'a" where
  "locked_section f lock callback w =
     (let s1 = (fst w)\<lparr>runners := runners (fst w) + 1\<rparr>;
          (acquire_err, s2) = acquireLock f lock s1;
          (res, a') = (case acquire_err of
                         Some err \<Rightarrow> (Inl err, snd w)
                       | None \<Rightarrow>
                           (case callback s2 (snd w) of
                              (Inl err, a') \<Rightarrow> (Inl (CallbackFailed err), a')
                            | (Inr r, a') \<Rightarrow> (Inr r, a')));
          (release_err, s3) = releaseLock f lock s2;
          (runner_err, s4) = queryRunner_release f s3
      in (case runner_err of
            Some err \<Rightarrow> Inl err
          | None \<Rightarrow> (case release_err of Some err \<Rightarrow> Inl err | None \<Rightarrow> res),
          s4, a'))"

text \<open>
  \<^verbatim>\<open>await this.asyncLock.acquire(DatabaseLock[lock], async () => { ... }); return res as R;\<close>
  \<^verbatim>\<open>async-lock\<close> marks the key busy, runs the function, and frees the key when the function
  has finished, whether it resolved or rejected. When the key is already held the caller
  waits for its holder, which a single caller cannot get past: that is \<open>None\<close>.
\<close>

definition withLock ::
  "faults \<Rightarrow> DatabaseLock \<Rightarrow> (lock_state \<Rightarrow> 'a \<Rightarrow> ('e + 'r) \<times> 'a) \<Rightarrow> lock_state \<times> 'a
     \<Rightarrow> (('e lock_error + 'r) \<times> lock_state \<times> 'a) option" where
  "withLock f lock callback w =
     (if lock_name lock \<in> busy (fst w) then None
      else (let s0 = (fst w)\<lparr>busy := insert (lock_name lock) (busy (fst w))\<rparr>;
                (res, s4, a') = locked_section f lock callback (s0, snd w)
            in Some (res, s4\<lparr>busy := busy s4 - {lock_name lock}\<rparr>, a')))"

definition no_locks :: lock_state where
  "no_locks = \<lparr>busy = {}, advisory = {}, runners = 0, issued = []\<rparr>"

definition no_faults :: faults where
  "no_faults = \<lparr>acquireLock_fails = False, releaseLock_fails = False,
                 runner_release_fails = False\<rparr>"

text \<open>A callback that reports what \<^verbatim>\<open>isBusy\<close> says while it runs, and then throws.\<close>

definition failing_callback :: "DatabaseLock \<Rightarrow> lock_state \<Rightarrow> bool list \<Rightarrow> (string + unit) \<times> bool list" where
  "failing_callback lock s seen = (Inl ''failed'', seen @ [isBusy s lock])"

section \<open>Chunked parameter collections (infra.utils: Chunked, ChunkedArray, ChunkedSet)\<close>

text \<open>
  The decorator is untyped (\<^verbatim>\<open>any\<close>), so its arguments and results are JavaScript
  values: \<^verbatim>\<open>undefined\<close>, numbers, arrays and sets (a set as the list of its elements in
  insertion order).
\<close>

datatype jsval = Undefined | JNum int | JArray "jsval list" | JSet "jsval list"

text \<open>
  Modelled from the spec: \<^verbatim>\<open>chunks\<close> (domain.util) is not among the sources. The spec has
  the wrapper chunk the collection to a bounded size: consecutive pieces of at most
  \<open>n\<close> elements, in order, of the kind of the collection. The bound is a positive
  constant; nothing is said about values that are not collections.
\<close>

function chunk_list :: "nat \<Rightarrow> 'a list \<Rightarrow> 'a list list" where
  "chunk_list n xs = (if n = 0 \<or> xs = [] then [] else take n xs # chunk_list n (drop n xs))"
  by pat_completeness auto
termination
  by (relation "measure (\<lambda>(n, xs). length xs)") auto

fun chunks :: "jsval \<Rightarrow> nat \<Rightarrow> jsval list option" where
  "chunks (JArray xs) n = Some (map JArray (chunk_list n xs))"
| "chunks (JSet xs) n = Some (map JSet (chunk_list n xs))"
| "chunks _ n = None"

text \<open>
  \<^verbatim>\<open>(arg instanceof Array && arg.length <= DATABASE_PARAMETER_CHUNK_SIZE) ||
  (arg instanceof Set && arg.size <= DATABASE_PARAMETER_CHUNK_SIZE)\<close>.
  The constant (infra.util) is not among the sources and is the parameter \<open>chunk_size\<close>.
\<close>

fun within_chunk_size :: "jsval \<Rightarrow> nat \<Rightarrow> bool" where
  "within_chunk_size (JArray xs) chunk_size = (length xs \<le> chunk_size)"
| "within_chunk_size (JSet xs) chunk_size = (length xs \<le> chunk_size)"
| "within_chunk_size _ chunk_size = False"

text \<open>
  \<^verbatim>\<open>Promise.all(chunks(...).map(async (chunk) => { await originalMethod.apply(this, [...]); }))\<close>:
  the arrow function has a block body without \<^verbatim>\<open>return\<close>, so each promise resolves to
  \<^verbatim>\<open>undefined\<close> when the method succeeds, and \<^verbatim>\<open>Promise.all\<close> rejects when a call rejects.
  A method is a function from its argument list to an error message or a value.
\<close>

fun await_all :: "(jsval list \<Rightarrow> string + jsval) \<Rightarrow> jsval list list \<Rightarrow> string + jsval list" where
  "await_all originalMethod [] = Inr []"
| "await_all originalMethod (a # as) =
     (case originalMethod a of
        Inl err \<Rightarrow> Inl err
      | Inr _ \<Rightarrow>
          (case await_all originalMethod as of
             Inl err \<Rightarrow> Inl err
           | Inr results \<Rightarrow> Inr (Undefined # results)))"

text \<open>\<^verbatim>\<open>args[paramIndex]\<close>, which is \<^verbatim>\<open>undefined\<close> past the end.\<close>

definition arg_at :: "jsval list \<Rightarrow> nat \<Rightarrow> jsval" where
  "arg_at args i = (if i < length args then args ! i else Undefined)"

text \<open>
  The wrapped method. \<^verbatim>\<open>[...args.slice(0, paramIndex), chunk, ...args.slice(paramIndex + 1)]\<close>
  is the argument list with the chunk in place of the collection.
\<close>

definition Chunked ::
  "nat \<Rightarrow> nat option \<Rightarrow> (jsval \<Rightarrow> jsval) option \<Rightarrow> (jsval list \<Rightarrow> string + jsval)
     \<Rightarrow> jsval list \<Rightarrow> string + jsval" where
  "Chunked chunk_size paramIndex_opt mergeFn originalMethod args =
     (let paramIndex = (case paramIndex_opt of None \<Rightarrow> 0 | Some i \<Rightarrow> i);
          arg = arg_at args paramIndex
      in if within_chunk_size arg chunk_size then originalMethod args
         else (case chunks arg chunk_size of
                 None \<Rightarrow> Inl ''not a collection''
               | Some cs \<Rightarrow>
                   (case await_all originalMethod
                           (map (\<lambda>chunk. take paramIndex args @ [chunk] @ drop (paramIndex + 1) args)
                              cs) of
                      Inl err \<Rightarrow> Inl err
                    | Inr results \<Rightarrow>
                        Inr (case mergeFn of
                               Some merge \<Rightarrow> merge (JArray results)
                             | None \<Rightarrow> JArray results))))"

text \<open>lodash's \<^verbatim>\<open>_.flatten\<close>: one level of nesting is removed; other elements stay.\<close>

fun flatten_element :: "jsval \<Rightarrow> jsval list" where
  "flatten_element (JArray ys) = ys"
| "flatten_element y = [y]"

fun flatten :: "jsval \<Rightarrow> jsval" where
  "flatten (JArray xs) = JArray (concat (map flatten_element xs))"
| "flatten _ = JArray []"

text \<open>
  Modelled from the spec: \<^verbatim>\<open>setUnion\<close> (domain.util) is not among the sources. The spec
  merges set results by set union: the elements of the per-chunk sets, each once.
\<close>

fun set_elements :: "jsval \<Rightarrow> jsval list" where
  "set_elements (JSet ys) = ys"
| "set_elements y = []"

fun setUnion :: "jsval \<Rightarrow> jsval" where
  "setUnion (JArray sets) = JSet (remdups (concat (map set_elements sets)))"
| "setUnion _ = JSet []"

definition ChunkedArray ::
  "nat \<Rightarrow> nat option \<Rightarrow> (jsval list \<Rightarrow> string + jsval) \<Rightarrow> jsval list \<Rightarrow> string + jsval" where
  "ChunkedArray chunk_size paramIndex_opt = Chunked chunk_size paramIndex_opt (Some flatten)"

definition ChunkedSet ::
  "nat \<Rightarrow> nat option \<Rightarrow> (jsval list \<Rightarrow> string + jsval) \<Rightarrow> jsval list \<Rightarrow> string + jsval" where
  "ChunkedSet chunk_size paramIndex_opt = Chunked chunk_size paramIndex_opt (Some setUnion)"

text \<open>
  A method for evaluation: it returns the collection it was given (as a lookup by ids that
  finds every id would).
\<close>

definition echo_method :: "jsval list \<Rightarrow> string + jsval" where
  "echo_method args = Inr (arg_at args 0)"

section \<open>Face search (SmartInfoRepository.searchFaces)\<close>

text \<open>
  A row of \<^verbatim>\<open>asset_faces\<close>: its cells by column name, and the owner of the asset it joins
  to (\<open>None\<close> when there is no such asset: the inner join drops the row). The entity
  and its column list are not among the sources; the column names are the parameter
  \<open>ownColumns\<close>.
\<close>

datatype cell = Null | Text string | Vector Embedding

record face_row =
  face_cells :: "(string \<times> cell) list"
  asset_owner :: "string option"

definition cell_of :: "face_row \<Rightarrow> string \<Rightarrow> cell" where
  "cell_of f c = (case map_of (face_cells f) c of None \<Rightarrow> Null | Some v \<Rightarrow> v)"

record 'd FaceSearchResult =
  face :: "(string \<times> cell) list"
  distance :: 'd

text \<open>
  \<^verbatim>\<open>this.faceColumns\<close>, set in the constructor: the entity's own columns but
  \<^verbatim>\<open>embedding\<close>.
\<close>

definition faceColumns :: "string list \<Rightarrow> string list" where
  "faceColumns ownColumns = filter (\<lambda>propertyName. propertyName \<noteq> ''embedding'') ownColumns"

text \<open>Truthiness of an optional number: \<^verbatim>\<open>undefined\<close>, 0 and \<^verbatim>\<open>NaN\<close> are falsy.\<close>

fun truthy_number :: "number option \<Rightarrow> bool" where
  "truthy_number None = False"
| "truthy_number (Some (Num r)) = (r \<noteq> 0)"
| "truthy_number (Some NaN) = False"
| "truthy_number (Some _) = True"

text \<open>\<^verbatim>\<open>Math.max(numResults, 64)\<close> as a row count, for a validated \<^verbatim>\<open>numResults\<close>.\<close>

fun candidate_limit :: "number \<Rightarrow> nat" where
  "candidate_limit (Num r) = nat \<lfloor>max r 64\<rfloor>"
| "candidate_limit _ = 64"

text \<open>
  The distance operator \<^verbatim>\<open><=>\<close> belongs to the vector extension: it is the parameter
  \<open>distance_op\<close>, into any linear order. The common table expression selects the faces of the
  given owners, only those with a person when \<^verbatim>\<open>hasPerson\<close> is truthy, ordered by
  distance, cut at the limit when there is one.
\<close>

definition cte_rows ::
  "(cell \<Rightarrow> Embedding \<Rightarrow> 'd::linorder) \<Rightarrow> face_row list \<Rightarrow> string list \<Rightarrow> Embedding
     \<Rightarrow> nat option \<Rightarrow> bool option \<Rightarrow> face_row list" where
  "cte_rows distance_op faces userIds embedding limit hasPerson =
     (let owned = filter (\<lambda>f. case asset_owner f of None \<Rightarrow> False
                               | Some owner \<Rightarrow> owner \<in> set userIds) faces;
          restricted = (if truthy_bool hasPerson
                        then filter (\<lambda>f. cell_of f ''personId'' \<noteq> Null) owned else owned);
          ordered = sort_key (\<lambda>f. distance_op (cell_of f ''embedding'') embedding) restricted
      in take_opt limit ordered)"

text \<open>
  \<^verbatim>\<open>if (numResults) { if (!isValidInteger(numResults, { min: 1 })) throw ...;
  const limit = Math.max(numResults, 64); cte = cte.limit(limit); ... }\<close>
  The validation and the limit are both inside the truthiness test, so a falsy
  \<^verbatim>\<open>numResults\<close> is treated like an absent one. The outer query (\<open>face_results\<close>) keeps
  the rows with \<^verbatim>\<open>res.distance <= :maxDistance\<close>; each becomes
  \<^verbatim>\<open>{ face: create(row), distance: row.distance }\<close> with the selected face columns. The
  session settings sent before the query are left out.
\<close>

definition face_results ::
  "string list \<Rightarrow> (cell \<Rightarrow> Embedding \<Rightarrow> 'd::linorder) \<Rightarrow> Embedding \<Rightarrow> 'd \<Rightarrow> face_row list
     \<Rightarrow> 'd FaceSearchResult list" where
  "face_results ownColumns distance_op embedding maxDistance cte =
     map (\<lambda>f. \<lparr>face = map (\<lambda>c. (c, cell_of f c)) (faceColumns ownColumns),
                distance = distance_op (cell_of f ''embedding'') embedding\<rparr>)
       (filter (\<lambda>f. distance_op (cell_of f ''embedding'') embedding \<le> maxDistance) cte)"

definition searchFaces ::
  "string list \<Rightarrow> (cell \<Rightarrow> Embedding \<Rightarrow> 'd::linorder) \<Rightarrow> face_row list \<Rightarrow> string list
     \<Rightarrow> Embedding \<Rightarrow> number option \<Rightarrow> 'd \<Rightarrow> bool option
     \<Rightarrow> string + 'd FaceSearchResult list" where
  "searchFaces ownColumns distance_op faces userIds embedding numResults maxDistance hasPerson =
     (case (if truthy_number numResults then numResults else None) of
        Some n \<Rightarrow>
          (if \<not> isValidInteger n (Some 1) None then Inl ''Invalid value for numResults''
           else Inr (face_results ownColumns distance_op embedding maxDistance
                       (cte_rows distance_op faces userIds embedding
                          (Some (candidate_limit n)) hasPerson)))
      | None \<Rightarrow>
          Inr (face_results ownColumns distance_op embedding maxDistance
                 (cte_rows distance_op faces userIds embedding None hasPerson)))"

text \<open>Sixty-five faces of one owner, all at distance 0 from any embedding.\<close>

definition one_face :: face_row where
  "one_face = \<lparr>face_cells = [(''id'', Text ''f''), (''personId'', Null),
                              (''embedding'', Vector [])],
               asset_owner = Some ''u''\<rparr>"

definition zero_distance :: "cell \<Rightarrow> Embedding \<Rightarrow> rat" where
  "zero_distance c e = 0"

definition result_count :: "string + 'a list \<Rightarrow> string + nat" where
  "result_count r = (case r of Inl err \<Rightarrow> Inl err | Inr rows \<Rightarrow> Inr (length rows))"

section \<open>Pagination: results\<close>

lemma matching_paginate_request:
  "matching (paginate_request take_n skip_n so) repository = stored_matching so repository"
  by (cases so) (simp_all add: matching_def paginate_request_def stored_matching_def)

lemma length_repository_find:
  "length (repository_find repository (paginate_request take_n skip_n so)) =
     min (length (stored_matching so repository) - skip_count skip_n) (take_n + 1)"
proof -
  have "fm_take (paginate_request take_n skip_n so) = Some (take_n + 1)"
       "fm_skip (paginate_request take_n skip_n so) = skip_n"
    by (cases so; simp add: paginate_request_def)+
  then show ?thesis
    by (cases skip_n)
       (simp_all add: repository_find_def matching_paginate_request skip_count_def min.commute)
qed

text \<open>
  C4. \<^verbatim>\<open>paginate\<close> asks the repository for \<open>take + 1\<close> rows after \<open>skip\<close>; with \<open>N\<close>
  matching rows it returns \<open>min (N - skip) take\<close> items and \<open>hasNextPage = (N - skip > take)\<close>;
  \<open>hasNextPage\<close> holds exactly when \<open>take + 1\<close> rows came back, and then the page is the
  first \<open>take\<close> of them, otherwise all of them. \<open>N - skip\<close> is the number of rows left
  after the offset (none when \<open>skip\<close> exceeds \<open>N\<close>); an absent \<open>skip\<close> counts as 0.
\<close>

theorem paginate_lookahead:
  fixes repository :: "'e list" and so :: "'e FindManyOptions option"
  shows "fm_take (paginate_request take_n skip_n so) = Some (take_n + 1)
       \<and> fm_skip (paginate_request take_n skip_n so) = skip_n
       \<and> length (items (paginate repository take_n skip_n so)) =
           min (length (stored_matching so repository) - skip_count skip_n) take_n
       \<and> hasNextPage (paginate repository take_n skip_n so) =
           (length (stored_matching so repository) - skip_count skip_n > take_n)
       \<and> hasNextPage (paginate repository take_n skip_n so) =
           (length (repository_find repository (paginate_request take_n skip_n so)) = take_n + 1)
       \<and> items (paginate repository take_n skip_n so) =
           (if hasNextPage (paginate repository take_n skip_n so)
            then take take_n (repository_find repository (paginate_request take_n skip_n so))
            else repository_find repository (paginate_request take_n skip_n so))"
proof -
  define fetched where "fetched = repository_find repository (paginate_request take_n skip_n so)"
  define N where "N = length (stored_matching so repository)"
  define page where "page = paginate repository take_n skip_n so"
  have len: "length fetched = min (N - skip_count skip_n) (take_n + 1)"
    unfolding fetched_def N_def by (rule length_repository_find)
  have pg: "page = paginationHelper fetched take_n"
    by (simp add: page_def paginate_def fetched_def)
  have req: "fm_take (paginate_request take_n skip_n so) = Some (take_n + 1)
       \<and> fm_skip (paginate_request take_n skip_n so) = skip_n"
    by (cases so) (simp_all add: paginate_request_def)
  have a: "length (items page) = min (N - skip_count skip_n) take_n"
    using len by (simp add: pg paginationHelper_def)
  have b: "hasNextPage page = (N - skip_count skip_n > take_n)"
    using len by (auto simp: pg paginationHelper_def)
  have c: "hasNextPage page = (length fetched = take_n + 1)"
    using len by (auto simp: pg paginationHelper_def)
  have d: "items page = (if hasNextPage page then take take_n fetched else fetched)"
    by (simp add: pg paginationHelper_def)
  from req a b c d show ?thesis
    unfolding fetched_def N_def page_def by blast
qed

text \<open>
  The same with integer subtraction: the size of the page is \<open>min (N - skip) take\<close>
  whenever that is not negative, and the lookahead flag needs no such proviso.
\<close>

lemma paginate_lookahead_int:
  fixes repository :: "'e list"
  shows "int (length (items (paginate repository take_n skip_n so))) =
           max 0 (min (int (length (stored_matching so repository)) - int (skip_count skip_n))
                      (int take_n))
       \<and> hasNextPage (paginate repository take_n skip_n so) =
           (int (length (stored_matching so repository)) - int (skip_count skip_n) > int take_n)"
  using length_repository_find [of repository take_n skip_n so]
  by (auto simp: paginate_def paginationHelper_def)

text \<open>
  The limit/offset branch of \<^verbatim>\<open>paginatedBuilder\<close> returns the page that \<^verbatim>\<open>paginate\<close>
  returns on the same rows.
\<close>

lemma paginatedBuilder_limit_offset:
  "paginatedBuilder (fresh_builder rows) take_n skip_n (Some LIMIT_OFFSET) =
     paginate rows take_n skip_n None"
  by (cases skip_n)
     (simp_all add: paginatedBuilder_def fresh_builder_def getMany_def is_set_def limit_rows_def
        drop_opt_def paginate_def repository_find_def paginate_request_def matching_def)

text \<open>
  C2 (fails on the code). With \<open>take = 2\<close>, \<open>skip = 1\<close> and five rows, the limit/offset
  mode returns rows 2 and 3 with \<open>hasNextPage\<close>; the other mode skips \<open>take + 1 = 3\<close> rows,
  takes \<open>skip = 1\<close> row and returns row 4 alone without \<open>hasNextPage\<close>.
\<close>

theorem paginatedBuilder_modes_differ:
  "paginatedBuilder (fresh_builder [1, 2, 3, 4, 5 :: nat]) 2 (Some 1) (Some LIMIT_OFFSET)
     = \<lparr>items = [2, 3], hasNextPage = True\<rparr>
   \<and> paginatedBuilder (fresh_builder [1, 2, 3, 4, 5 :: nat]) 2 (Some 1) (Some SKIP_TAKE)
     = \<lparr>items = [4], hasNextPage = False\<rparr>
   \<and> paginatedBuilder (fresh_builder [1, 2, 3, 4, 5 :: nat]) 2 (Some 1) (Some SKIP_TAKE)
     \<noteq> paginatedBuilder (fresh_builder [1, 2, 3, 4, 5 :: nat]) 2 (Some 1) (Some LIMIT_OFFSET)"
  by (simp add: paginatedBuilder_def fresh_builder_def getMany_def is_set_def limit_rows_def
        drop_opt_def paginationHelper_def)

section \<open>Asset search filter: results\<close>

lemma withDeletedSet_andWhere [simp]: "withDeletedSet (andWhere w b) = withDeletedSet b"
  by (simp add: andWhere_def)

lemma withDeletedSet_leftJoin [simp]: "withDeletedSet (leftJoin p a b) = withDeletedSet b"
  by (simp add: leftJoin_def)

lemma withDeletedSet_leftJoinAndSelect [simp]:
  "withDeletedSet (leftJoinAndSelect p a b) = withDeletedSet b"
  by (simp add: leftJoinAndSelect_def)

lemma withDeletedSet_apply_date: "withDeletedSet (apply_date d b) = withDeletedSet b"
  by (simp add: apply_date_def split: option.splits)

lemma withDeletedSet_apply_exif: "withDeletedSet (apply_exif e b) = withDeletedSet b"
  by (simp add: apply_exif_def Let_def split: option.splits)

lemma withDeletedSet_apply_id: "withDeletedSet (apply_id i b) = withDeletedSet b"
  by (simp add: apply_id_def split: option.splits)

lemma withDeletedSet_apply_path: "withDeletedSet (apply_path p b) = withDeletedSet b"
  by (simp add: apply_path_def split: option.splits)

lemma withDeletedSet_apply_status: "withDeletedSet (apply_status s p b) = withDeletedSet b"
  by (simp add: apply_status_def Let_def split: option.splits)

lemma withDeletedSet_apply_relation: "withDeletedSet (apply_relation r b) = withDeletedSet b"
  by (simp add: apply_relation_def Let_def split: option.splits)

lemma withDeletedSet_searchAssetBuilder:
  "withDeletedSet (searchAssetBuilder builder options) =
     (withDeletedSet builder \<or> withDeleted_decision options)"
  by (simp add: searchAssetBuilder_def Let_def withDeletedSet_apply_date withDeletedSet_apply_exif
        withDeletedSet_apply_id withDeletedSet_apply_path withDeletedSet_apply_status
        withDeletedSet_apply_relation)

text \<open>
  C3 (as amended). On a fresh builder, \<^verbatim>\<open>searchAssetBuilder\<close> switches soft-deleted rows
  on exactly when \<^verbatim>\<open>status.withDeleted\<close> is explicitly true, or \<^verbatim>\<open>status.withDeleted\<close> is
  not supplied and at least one of \<^verbatim>\<open>date.trashedAfter\<close>, \<^verbatim>\<open>date.trashedBefore\<close> is
  present. An explicit \<^verbatim>\<open>status.withDeleted = false\<close> keeps them excluded even with a
  trashed-date bound: \<^verbatim>\<open>??\<close> falls back to the date bounds only for an absent flag.
\<close>

theorem searchAssetBuilder_withDeleted:
  "withDeletedSet (searchAssetBuilder (new_builder a) options) =
     (status_withDeleted (status options) = Some True
      \<or> (status_withDeleted (status options) = None
          \<and> (date_trashedAfter (date options) \<noteq> None
             \<or> date_trashedBefore (date options) \<noteq> None)))"
  by (auto simp: withDeletedSet_searchAssetBuilder withDeleted_decision_def new_builder_def
        split: option.splits)

text \<open>
  C3 as stated fails: with \<^verbatim>\<open>status.withDeleted = false\<close> and \<^verbatim>\<open>date.trashedAfter\<close> given,
  a trashed-date bound is present but soft-deleted rows stay excluded.
\<close>

theorem searchAssetBuilder_withDeleted_counterexample:
  "\<not> (withDeletedSet (searchAssetBuilder (new_builder ''asset'') trashed_but_not_deleted) =
        (status_withDeleted (status trashed_but_not_deleted) = Some True
         \<or> date_trashedAfter (date trashed_but_not_deleted) \<noteq> None
         \<or> date_trashedBefore (date trashed_but_not_deleted) \<noteq> None))"
  by (simp add: withDeletedSet_searchAssetBuilder withDeleted_decision_def new_builder_def
        trashed_but_not_deleted_def no_options_def no_date_def no_status_def
        status_withDeleted_def date_trashedAfter_def date_trashedBefore_def)

text \<open>
  The amended statement at three filters: a trashed-date bound alone (eligible), the same
  bound with \<^verbatim>\<open>withDeleted = false\<close> (excluded), and the empty filter (excluded).
\<close>

theorem searchAssetBuilder_withDeleted_witness:
  "withDeletedSet (searchAssetBuilder (new_builder ''asset'') trashed_only)
   \<and> status_withDeleted (status trashed_only) = None
   \<and> date_trashedAfter (date trashed_only) = Some 0
   \<and> \<not> withDeletedSet (searchAssetBuilder (new_builder ''asset'') trashed_but_not_deleted)
   \<and> \<not> withDeletedSet (searchAssetBuilder (new_builder ''asset'') no_options)"
  using searchAssetBuilder_withDeleted [of "''asset''" trashed_only]
        searchAssetBuilder_withDeleted [of "''asset''" trashed_but_not_deleted]
        searchAssetBuilder_withDeleted [of "''asset''" no_options]
  by (simp add: trashed_only_def trashed_but_not_deleted_def no_options_def no_date_def
        no_status_def status_withDeleted_def date_trashedAfter_def date_trashedBefore_def)

text \<open>
  When the "encoded path is not null" predicate is added: \<^verbatim>\<open>isEncoded\<close> is true and
  \<^verbatim>\<open>path.encodedVideoPath\<close> is absent or the empty string. No other where-object that
  \<^verbatim>\<open>searchAssetBuilder\<close> adds is that predicate.
\<close>

lemma set_omitBy_isUndefined:
  "(k, v) \<in> set (omitBy_isUndefined kvs) \<longleftrightarrow> (k, Some v) \<in> set kvs"
  by (induction kvs rule: omitBy_isUndefined.induct) auto

lemma not_encoded_clause:
  "(''encodedVideoPath'', Some NotIsNull) \<notin> set kvs \<Longrightarrow>
     omitBy_isUndefined kvs \<noteq> [(''encodedVideoPath'', NotIsNull)]"
proof
  assume n: "(''encodedVideoPath'', Some NotIsNull) \<notin> set kvs"
     and e: "omitBy_isUndefined kvs = [(''encodedVideoPath'', NotIsNull)]"
  from e have "(''encodedVideoPath'', NotIsNull) \<in> set (omitBy_isUndefined kvs)" by simp
  with n show False by (simp add: set_omitBy_isUndefined)
qed

lemma date_where_not_encoded [simp]:
  "date_where d \<noteq> [(''encodedVideoPath'', NotIsNull)]"
  "[(''encodedVideoPath'', NotIsNull)] \<noteq> date_where d"
proof -
  show "date_where d \<noteq> [(''encodedVideoPath'', NotIsNull)]"
    unfolding date_where_def by (rule not_encoded_clause) simp
  then show "[(''encodedVideoPath'', NotIsNull)] \<noteq> date_where d"
    by (rule not_sym)
qed

lemma exif_where_not_encoded [simp]:
  "exif_where e \<noteq> [(''encodedVideoPath'', NotIsNull)]"
  "[(''encodedVideoPath'', NotIsNull)] \<noteq> exif_where e"
proof -
  show "exif_where e \<noteq> [(''encodedVideoPath'', NotIsNull)]"
    unfolding exif_where_def by (rule not_encoded_clause) simp
  then show "[(''encodedVideoPath'', NotIsNull)] \<noteq> exif_where e"
    by (rule not_sym)
qed

lemma id_where_not_encoded [simp]:
  "id_where i \<noteq> [(''encodedVideoPath'', NotIsNull)]"
  "[(''encodedVideoPath'', NotIsNull)] \<noteq> id_where i"
proof -
  show "id_where i \<noteq> [(''encodedVideoPath'', NotIsNull)]"
    unfolding id_where_def by (rule not_encoded_clause) simp
  then show "[(''encodedVideoPath'', NotIsNull)] \<noteq> id_where i"
    by (rule not_sym)
qed

lemma path_where_not_encoded [simp]:
  "path_where p \<noteq> [(''encodedVideoPath'', NotIsNull)]"
  "[(''encodedVideoPath'', NotIsNull)] \<noteq> path_where p"
proof -
  show "path_where p \<noteq> [(''encodedVideoPath'', NotIsNull)]"
    unfolding path_where_def by (rule not_encoded_clause) (cases "encodedVideoPath p"; simp add: eq_string_def)
  then show "[(''encodedVideoPath'', NotIsNull)] \<noteq> path_where p"
    by (rule not_sym)
qed

lemma otherStatuses_where_not_encoded [simp]:
  "otherStatuses_where st \<noteq> [(''encodedVideoPath'', NotIsNull)]"
  "[(''encodedVideoPath'', NotIsNull)] \<noteq> otherStatuses_where st"
proof -
  show "otherStatuses_where st \<noteq> [(''encodedVideoPath'', NotIsNull)]"
    unfolding otherStatuses_where_def by (rule not_encoded_clause) simp
  then show "[(''encodedVideoPath'', NotIsNull)] \<noteq> otherStatuses_where st"
    by (rule not_sym)
qed

lemma wheres_leftJoin [simp]: "wheres (leftJoin p a b) = wheres b"
  by (simp add: leftJoin_def)

lemma wheres_leftJoinAndSelect [simp]: "wheres (leftJoinAndSelect p a b) = wheres b"
  by (simp add: leftJoinAndSelect_def)

lemma wheres_andWhere [simp]: "wheres (andWhere w b) = wheres b @ [w]"
  by (simp add: andWhere_def)

lemma encoded_apply_date: "encoded_clause_in (apply_date d b) = encoded_clause_in b"
  by (auto simp: encoded_clause_in_def apply_date_def split: option.splits)

lemma encoded_apply_exif: "encoded_clause_in (apply_exif e b) = encoded_clause_in b"
  by (auto simp: encoded_clause_in_def apply_exif_def Let_def split: option.splits)

lemma encoded_apply_id: "encoded_clause_in (apply_id i b) = encoded_clause_in b"
  by (auto simp: encoded_clause_in_def apply_id_def split: option.splits)

lemma encoded_apply_path: "encoded_clause_in (apply_path p b) = encoded_clause_in b"
  by (auto simp: encoded_clause_in_def apply_path_def split: option.splits)

lemma encoded_apply_relation: "encoded_clause_in (apply_relation r b) = encoded_clause_in b"
  by (auto simp: encoded_clause_in_def apply_relation_def Let_def split: option.splits)

lemma encoded_apply_status:
  "encoded_clause_in (apply_status s p b) =
     (encoded_clause_in b \<or>
      (\<exists>st. s = Some st \<and> truthy_bool (isEncoded st))
        \<and> \<not> truthy_string (path_encodedVideoPath p))"
  by (auto simp: encoded_clause_in_def apply_status_def Let_def split: option.splits)

lemma searchAssetBuilder_encoded_clause:
  "encoded_clause_in (searchAssetBuilder builder options) =
     (encoded_clause_in builder \<or>
      (\<exists>st. status options = Some st \<and> isEncoded st = Some True)
        \<and> (path_encodedVideoPath (path options) = None
           \<or> path_encodedVideoPath (path options) = Some []))"
proof -
  have "encoded_clause_in (searchAssetBuilder builder options) =
        encoded_clause_in (apply_relation (relation options)
          (apply_status (status options) (path options)
            (apply_path (path options) (apply_id (idOptions options)
              (apply_exif (exif options) (apply_date (date options) builder))))))"
    by (simp add: searchAssetBuilder_def Let_def encoded_clause_in_def)
  then show ?thesis
    by (auto simp: encoded_apply_relation encoded_apply_status encoded_apply_path
          encoded_apply_id encoded_apply_exif encoded_apply_date truthy_bool_def
          truthy_string_def split: option.splits)
qed

text \<open>
  C9 (fails on the code). With \<^verbatim>\<open>status.isEncoded = true\<close> and an explicit
  \<^verbatim>\<open>path.encodedVideoPath\<close> equal to the empty string, the path where-object holds the
  explicit equality on \<^verbatim>\<open>encodedVideoPath\<close>, and the "not null" predicate on the same
  property is added as well: \<^verbatim>\<open>!path?.encodedVideoPath\<close> tests truthiness, and the empty
  string is falsy. (The empty where-object in between is that of the other status flags.)
\<close>

theorem searchAssetBuilder_isEncoded_empty_path:
  "wheres (searchAssetBuilder (new_builder ''asset'') encoded_with_empty_path) =
     [[(''encodedVideoPath'', Equal (VString ''''))], [], [(''encodedVideoPath'', NotIsNull)]]"
  by (simp add: searchAssetBuilder_def Let_def encoded_with_empty_path_def no_options_def
        no_path_def no_status_def new_builder_def apply_date_def apply_exif_def apply_id_def
        apply_path_def apply_status_def apply_relation_def andWhere_def path_where_def
        otherStatuses_where_def eq_string_def eq_bool_def truthy_bool_def truthy_string_def
        path_encodedVideoPath_def withDeleted_decision_def status_withDeleted_def
        date_trashedAfter_def date_trashedBefore_def)

section \<open>Extension version gate: results\<close>

lemma not_isNewerThan_zero: "\<not> isNewerThan (version 0 0 0) w t"
  by (cases t) (simp_all add: version_def)

lemma isOlderThan_zero: "isOlderThan (version 0 0 0) w = (w \<noteq> version 0 0 0)"
  by (cases w) (auto simp: isOlderThan_def version_def)

lemma checkVectorExtension_zero:
  assumes "maxVersion svc vectorExtension = MaxType t"
  shows "checkVectorExtension svc vectorExtension (Some (version 0 0 0)) =
     (if minVersion svc vectorExtension \<noteq> version 0 0 0
      then (Some VersionRejected, [Fatal]) else (None, []))"
  using assms
  by (simp add: checkVectorExtension_def not_isNewerThan_zero isOlderThan_zero
        del: isNewerThan.simps)

lemma migrations_run_called [simp]:
  "migrations_run (called c w) = migrations_run w + (if c = RunMigrations then 1 else 0)"
  by (simp add: migrations_run_def called_def)

lemma migrations_run_logged [simp]: "migrations_run (logged l w) = migrations_run w"
  by (simp add: migrations_run_def logged_def)

lemma migrations_run_repo [simp]: "migrations_run (w\<lparr>repo := r\<rparr>) = migrations_run w"
  by (simp add: migrations_run_def)

lemma migrations_run_logs [simp]: "migrations_run (w\<lparr>logs := l\<rparr>) = migrations_run w"
  by (simp add: migrations_run_def)

lemma migrations_run_assertPostgresql:
  "migrations_run (snd (assertPostgresql svc R w)) = migrations_run w"
  by (simp add: assertPostgresql_def Let_def)

lemma migrations_run_createVectorExtension:
  "migrations_run (snd (createVectorExtension e R w)) = migrations_run w"
  by (simp add: createVectorExtension_def split: prod.splits option.splits)

lemma migrations_run_updateVectorExtension:
  "migrations_run (snd (updateVectorExtension e R w)) = migrations_run w"
  by (simp add: updateVectorExtension_def Let_def split: prod.splits option.splits
        unawaited.splits)

lemma migrations_run_and_then:
  assumes "\<And>w. migrations_run (snd (f w)) = migrations_run w"
  shows "migrations_run (snd (and_then r f)) = migrations_run (snd r)"
  using assms by (cases r) (simp add: and_then_def split: option.splits)

lemma migrations_run_before_assert:
  "migrations_run (snd (before_assert svc e R w)) = migrations_run w"
  by (simp add: before_assert_def migrations_run_and_then migrations_run_assertPostgresql
        migrations_run_createVectorExtension migrations_run_updateVectorExtension)

lemma assertVectorExtension_zero:
  assumes "getExtensionVersion R vectorExtension (repo w) = Some (version 0 0 0)"
      and "maxVersion svc vectorExtension = MaxType t"
  shows "assertVectorExtension svc vectorExtension R w =
           (if minVersion svc vectorExtension \<noteq> version 0 0 0
            then (Some VersionRejected, logged Fatal (called (GetExtensionVersion vectorExtension) w))
            else (None, called (GetExtensionVersion vectorExtension) w))"
  using assms(1)
  by (simp add: assertVectorExtension_def Let_def checkVectorExtension_zero [OF assms(2)]
        logged_def called_def)

text \<open>
  C1 (as amended). Under a policy that holds the configured extension to a pin precision
  (\<^verbatim>\<open>PATCH\<close>, \<^verbatim>\<open>MINOR\<close> or \<^verbatim>\<open>MAJOR\<close>, as the class has for both kinds): when start-up
  reaches the version assertion and the installed version read there is 0.0.0, the
  assertion rejects it exactly when the configured minimum is not 0.0.0. Then \<^verbatim>\<open>init\<close>
  fails with a fatal log entry, and \<^verbatim>\<open>runMigrations\<close> is not called. With a configured
  minimum of 0.0.0 the version is accepted and \<^verbatim>\<open>init\<close> goes on to the migrations.
\<close>

theorem init_version_zero:
  assumes "before_assert svc vectorExtension R w = (None, w3)"
      and "getExtensionVersion R vectorExtension (repo w3) = Some (version 0 0 0)"
      and "maxVersion svc vectorExtension = MaxType t"
  shows "init svc vectorExtension R w =
           (if minVersion svc vectorExtension \<noteq> version 0 0 0
            then (Some VersionRejected,
                  logged Fatal (called (GetExtensionVersion vectorExtension) w3))
            else runMigrations_step R (called (GetExtensionVersion vectorExtension) w3))
         \<and> migrations_run (snd (init svc vectorExtension R w)) =
             (if minVersion svc vectorExtension \<noteq> version 0 0 0 then migrations_run w
              else migrations_run w + 1)"
proof -
  have i: "init svc vectorExtension R w =
           (if minVersion svc vectorExtension \<noteq> version 0 0 0
            then (Some VersionRejected,
                  logged Fatal (called (GetExtensionVersion vectorExtension) w3))
            else runMigrations_step R (called (GetExtensionVersion vectorExtension) w3))"
    using assms(1)
    by (simp add: init_def and_then_def assertVectorExtension_zero [OF assms(2) assms(3)])
  have m: "migrations_run w3 = migrations_run w"
    using migrations_run_before_assert [of svc vectorExtension R w] assms(1) by simp
  have "migrations_run (snd (runMigrations_step R w')) = migrations_run w' + 1" for w'
    by (simp add: runMigrations_step_def split: prod.splits)
  with i m show ?thesis by simp
qed

text \<open>
  C1 as stated fails: with the class's own policy for pgvecto.rs (minimum 0.0.0, pinned
  at MINOR) and version 0.0.0 installed, \<^verbatim>\<open>init\<close> succeeds, logs nothing fatal and runs
  the migrations.
\<close>

theorem init_version_zero_counterexample:
  "getExtensionVersion mock_repository VECTORS
     (repo (snd (before_assert default_service VECTORS mock_repository
                   (fresh_world (Some (version 0 0 0)))))) = Some (version 0 0 0)
   \<and> init default_service VECTORS mock_repository (fresh_world (Some (version 0 0 0))) =
       (None, \<lparr>repo = Some (version 0 0 0),
               calls = [GetPostgresVersion, CreateExtension VECTORS, GetExtensionVersion VECTORS,
                        GetAvailableExtensionVersion VECTORS, GetExtensionVersion VECTORS,
                        RunMigrations],
               logs = []\<rparr>)"
  by (simp add: init_def before_assert_def and_then_def assertPostgresql_def
        createVectorExtension_def updateVectorExtension_def assertVectorExtension_def
        checkVectorExtension_def runMigrations_step_def mock_repository_def fresh_world_def
        default_service_def version_def called_def logged_def minVersion_def maxVersion_def
        isOlderThan_def Let_def)

text \<open>
  The amended statement at the class's two policies. For pgvector (minimum 0.5.0, pinned
  at MAJOR) 0.0.0 is rejected, fatally, before any migration; for pgvecto.rs (minimum
  0.0.0, pinned at MINOR) it is accepted and the migrations run once.
\<close>

theorem init_version_zero_witness:
  "init default_service VECTOR mock_repository (fresh_world (Some (version 0 0 0))) =
       (Some VersionRejected,
        \<lparr>repo = Some (version 0 0 0),
         calls = [GetPostgresVersion, CreateExtension VECTOR, GetExtensionVersion VECTOR,
                  GetAvailableExtensionVersion VECTOR, GetExtensionVersion VECTOR],
         logs = [Fatal]\<rparr>)
   \<and> migrations_run (snd (init default_service VECTOR mock_repository
                            (fresh_world (Some (version 0 0 0))))) = 0
   \<and> migrations_run (snd (init default_service VECTORS mock_repository
                            (fresh_world (Some (version 0 0 0))))) = 1"
proof -
  let ?w3 = "\<lambda>e. \<lparr>repo = Some (version 0 0 0),
         calls = [GetPostgresVersion, CreateExtension e, GetExtensionVersion e,
                  GetAvailableExtensionVersion e],
         logs = []\<rparr>"
  have b: "before_assert default_service e mock_repository
             (fresh_world (Some (version 0 0 0))) = (None, ?w3 e)" for e
    by (simp add: before_assert_def and_then_def assertPostgresql_def
        createVectorExtension_def updateVectorExtension_def mock_repository_def fresh_world_def
        default_service_def version_def called_def Let_def)
  have g: "getExtensionVersion mock_repository e (repo (?w3 e)) = Some (version 0 0 0)" for e
    by (simp add: mock_repository_def)
  have p: "maxVersion default_service VECTOR = MaxType MAJOR"
    by (simp add: default_service_def maxVersion_def)
  have q: "maxVersion default_service VECTORS = MaxType MINOR"
    by (simp add: default_service_def maxVersion_def)
  have m: "minVersion default_service VECTOR \<noteq> version 0 0 0"
          "minVersion default_service VECTORS = version 0 0 0"
    by (simp_all add: default_service_def minVersion_def version_def)
  show ?thesis
    using init_version_zero [OF b g p] init_version_zero [OF b g q] m
    by (simp add: logged_def called_def migrations_run_def fresh_world_def
          runMigrations_step_def mock_repository_def)
qed

section \<open>CLIP embedding dimension: results\<close>

lemma isValidInteger_iff:
  "isValidInteger v (Some 1) (Some 65536) = integer_in_range v"
proof (cases v)
  case (Num r)
  show ?thesis
  proof
    assume "isValidInteger v (Some 1) (Some 65536)"
    then have r: "of_int \<lfloor>r\<rfloor> = r" "1 \<le> r" "r \<le> 65536"
      using Num by (simp_all add: isValidInteger_def)
    then have b: "1 \<le> \<lfloor>r\<rfloor>" "\<lfloor>r\<rfloor> \<le> 65536" by linarith+
    have "v = Num (of_int \<lfloor>r\<rfloor>)"
      by (simp only: Num r(1))
    with b show "integer_in_range v"
      unfolding integer_in_range_def by blast
  next
    assume "integer_in_range v"
    then obtain k :: int where "v = Num (of_int k)" "1 \<le> k" "k \<le> 65536"
      unfolding integer_in_range_def by blast
    then show "isValidInteger v (Some 1) (Some 65536)"
      by (simp add: isValidInteger_def)
  qed
qed (simp_all add: isValidInteger_def integer_in_range_def)

lemma strict_eq_Num: "strict_eq (Num a) y = (y = Num a)"
  by (cases y) auto

text \<open>
  C7. A \<^verbatim>\<open>dimSize\<close> that is not an integer in [1, 65536] is refused with the validation
  error and the database is as before: no statement was executed. A valid \<^verbatim>\<open>dimSize\<close>
  equal to the dimension the catalog reports makes \<^verbatim>\<open>updateCLIPDimSize\<close> return normally
  with the database as before: no drop, no create, no index build.
\<close>

theorem updateCLIPDimSize_guards:
  "(\<not> integer_in_range dimSize \<longrightarrow>
      updateCLIPDimSize vectorExtension dimSize db = (Some (InvalidDimSize dimSize), db))
   \<and> (integer_in_range dimSize \<and> dimsize_rows db = dimSize # others \<longrightarrow>
      getCLIPDimSize db = Inr dimSize
      \<and> updateCLIPDimSize vectorExtension dimSize db = (None, db))
   \<and> (dimsize_rows db = dimSize # others \<longrightarrow>
      snd (updateCLIPDimSize vectorExtension dimSize db) = db)"
proof -
  have inv: "updateCLIPDimSize vectorExtension dimSize db = (Some (InvalidDimSize dimSize), db)"
    if "\<not> integer_in_range dimSize"
    using that by (simp add: updateCLIPDimSize_def isValidInteger_iff)
  have same: "getCLIPDimSize db = Inr dimSize
      \<and> updateCLIPDimSize vectorExtension dimSize db = (None, db)"
    if a: "integer_in_range dimSize \<and> dimsize_rows db = dimSize # others"
  proof -
    from a obtain k :: int where k: "dimSize = Num (of_int k)"
      unfolding integer_in_range_def by blast
    from a have v: "isValidInteger dimSize (Some 1) (Some 65536)"
      by (simp add: isValidInteger_iff)
    with a have g: "getCLIPDimSize db = Inr dimSize"
      by (simp add: getCLIPDimSize_def)
    have "strict_eq dimSize dimSize"
      by (simp add: k)
    with v g show ?thesis
      by (simp add: updateCLIPDimSize_def)
  qed
  have "snd (updateCLIPDimSize vectorExtension dimSize db) = db"
    if "dimsize_rows db = dimSize # others"
    using that inv same by (cases "integer_in_range dimSize") simp_all
  with inv same show ?thesis by blast
qed

text \<open>
  The statement at width 512: 0, one half and \<^verbatim>\<open>NaN\<close> are refused, and 512 itself changes
  nothing.
\<close>

theorem updateCLIPDimSize_guards_witness:
  "updateCLIPDimSize VECTORS (Num 0) clip_db_512 = (Some (InvalidDimSize (Num 0)), clip_db_512)
   \<and> updateCLIPDimSize VECTORS (Num (1 / 2)) clip_db_512
       = (Some (InvalidDimSize (Num (1 / 2))), clip_db_512)
   \<and> updateCLIPDimSize VECTORS NaN clip_db_512 = (Some (InvalidDimSize NaN), clip_db_512)
   \<and> updateCLIPDimSize VECTORS (Num 512) clip_db_512 = (None, clip_db_512)"
proof -
  have n0: "\<not> integer_in_range (Num 0)"
    by (simp add: integer_in_range_def)
  have nh: "\<not> integer_in_range (Num (1 / 2))"
    unfolding isValidInteger_iff [symmetric] by (simp add: isValidInteger_def) 
  have nn: "\<not> integer_in_range NaN"
    by (simp add: integer_in_range_def)
  have y: "integer_in_range (Num 512) \<and> dimsize_rows clip_db_512 = Num 512 # []"
    unfolding integer_in_range_def clip_db_512_def by (simp add: exI [of _ 512])
  show ?thesis
    using updateCLIPDimSize_guards [where dimSize = "Num 0" and db = clip_db_512
        and vectorExtension = VECTORS]
      updateCLIPDimSize_guards [where dimSize = "Num (1 / 2)" and db = clip_db_512
        and vectorExtension = VECTORS]
      updateCLIPDimSize_guards [where dimSize = NaN and db = clip_db_512
        and vectorExtension = VECTORS]
      updateCLIPDimSize_guards [where dimSize = "Num 512" and db = clip_db_512
        and others = "[]" and vectorExtension = VECTORS]
      n0 nh nn y
    by simp
qed

text \<open>A valid width other than the current one does rebuild the table and the index.\<close>

lemma updateCLIPDimSize_changes:
  "updateCLIPDimSize VECTORS (Num 768) clip_db_512 =
     (None, \<lparr>dimsize_rows = [Num 768],
             executed = [DropTable ''smart_search'', CreateSmartSearchTable VECTORS (Num 768),
                         SetPgvectorCompatibility, CreateIndex ''clip_index'']\<rparr>)"
  by (simp add: updateCLIPDimSize_def isValidInteger_def getCLIPDimSize_def clip_db_512_def
        recreate_smart_search_def createCLIPIndex_def)

section \<open>Smart info and embeddings: results\<close>

text \<open>
  C10. When \<^verbatim>\<open>smartInfo.assetId\<close> or \<^verbatim>\<open>embedding\<close> is absent, \<^verbatim>\<open>upsert\<close> is the smart-info
  write alone: it fails only if that write fails, it returns normally with the smart-info
  table written when that write succeeds, the embedding table is as before in either
  case, and the embedding repository plays no part (any other one gives the same result).
  So the embedding table changes only when both are provided.
\<close>

theorem upsert_without_embedding:
  assumes "assetId smartInfo = None \<or> embedding = None"
  shows "upsert info_upsert search_upsert str smartInfo embedding db =
           (case info_upsert smartInfo (smart_info db) of
              Inl err \<Rightarrow> (Some err, db)
            | Inr t \<Rightarrow> (None, db\<lparr>smart_info := t\<rparr>))
         \<and> smart_search (snd (upsert info_upsert search_upsert str smartInfo embedding db)) =
             smart_search db
         \<and> upsert info_upsert search_upsert str smartInfo embedding db =
             upsert info_upsert other_upsert str smartInfo embedding db"
  using assms by (auto simp: upsert_def split: sum.splits option.splits)

theorem upsert_without_embedding_witness:
  "upsert append_info append_search (\<lambda>n. ''0'') \<lparr>assetId = Some ''a1'', columns = ()\<rparr> None
     empty_tables =
     (None, \<lparr>smart_info = [\<lparr>assetId = Some ''a1'', columns = ()\<rparr>], smart_search = []\<rparr>)
   \<and> upsert append_info append_search (\<lambda>n. ''0'') \<lparr>assetId = None, columns = ()\<rparr>
       (Some [Num 1, Num 2]) empty_tables =
     (None, \<lparr>smart_info = [\<lparr>assetId = None, columns = ()\<rparr>], smart_search = []\<rparr>)"
  using upsert_without_embedding [where smartInfo = "\<lparr>assetId = Some ''a1'', columns = ()\<rparr>"
          and embedding = None and info_upsert = append_info and search_upsert = append_search
          and str = "\<lambda>n. ''0''" and db = empty_tables]
        upsert_without_embedding [where smartInfo = "\<lparr>assetId = None, columns = ()\<rparr>"
          and embedding = "Some [Num 1, Num 2]" and info_upsert = append_info
          and search_upsert = append_search and str = "\<lambda>n. ''0''" and db = empty_tables]
  by (simp add: append_info_def empty_tables_def)

text \<open>
  With both provided (and a non-empty \<^verbatim>\<open>assetId\<close>) the embedding is written after the smart
  info; an empty \<^verbatim>\<open>assetId\<close> counts as absent.
\<close>

lemma upsert_with_embedding:
  "upsert append_info append_search (\<lambda>n. ''0'') \<lparr>assetId = Some ''a1'', columns = ()\<rparr>
     (Some [Num 1, Num 2]) empty_tables =
     (None, \<lparr>smart_info = [\<lparr>assetId = Some ''a1'', columns = ()\<rparr>],
             smart_search = [(''a1'', [CHR 0x27] @ ''[0,0]'' @ [CHR 0x27])]\<rparr>)"
  by (simp add: upsert_def upsertEmbedding_def append_info_def append_search_def empty_tables_def
        asVector_def truthy_string_def)

lemma upsert_empty_assetId:
  "upsert info_upsert search_upsert str (smartInfo\<lparr>assetId := Some []\<rparr>) embedding db =
     upsert info_upsert other_upsert str (smartInfo\<lparr>assetId := Some []\<rparr>) embedding db
   \<and> smart_search (snd (upsert info_upsert search_upsert str (smartInfo\<lparr>assetId := Some []\<rparr>)
                          embedding db)) = smart_search db"
  by (auto simp: upsert_def truthy_string_def split: sum.splits option.splits)

section \<open>Advisory locks: results\<close>

lemma locked_section_state:
  "fst (snd (locked_section f lock callback (s, a))) =
     s\<lparr>runners := (if runner_release_fails f then runners s + 1 else runners s),
       advisory := (if releaseLock_fails f
                    then (if acquireLock_fails f then advisory s
                          else insert (lock_number lock) (advisory s))
                    else advisory s - {lock_number lock}),
       issued := issued s @ [AdvisoryLock (lock_number lock), AdvisoryUnlock (lock_number lock)]\<rparr>"
  by (simp add: locked_section_def acquireLock_def releaseLock_def queryRunner_release_def
        Let_def split: prod.splits option.splits sum.splits)

lemma locked_section_callback:
  assumes "\<And>ls x. isBusy ls lock \<Longrightarrow> callback ls x = callback' ls x"
      and "isBusy s lock"
  shows "locked_section f lock callback (s, a) = locked_section f lock callback' (s, a)"
proof -
  have "isBusy (snd (acquireLock f lock (s\<lparr>runners := runners s + 1\<rparr>) ::
                 'b lock_error option \<times> lock_state)) lock"
    using assms(2) by (simp add: acquireLock_def isBusy_def Let_def)
  then show ?thesis
    using assms(1)
    by (auto simp: locked_section_def Let_def split: prod.splits option.splits sum.splits)
qed

lemma withLock_Some:
  assumes "\<not> isBusy s lock"
  shows "withLock f lock callback (s, a) =
           Some (fst (locked_section f lock callback
                        (s\<lparr>busy := insert (lock_name lock) (busy s)\<rparr>, a)),
                 (fst (snd (locked_section f lock callback
                        (s\<lparr>busy := insert (lock_name lock) (busy s)\<rparr>, a))))
                   \<lparr>busy := busy s\<rparr>,
                 snd (snd (locked_section f lock callback
                        (s\<lparr>busy := insert (lock_name lock) (busy s)\<rparr>, a))))"
proof -
  have b: "insert (lock_name lock) (busy s) - {lock_name lock} = busy s"
    using assms by (auto simp: isBusy_def)
  obtain res s4 a' where l: "locked_section f lock callback
      (s\<lparr>busy := insert (lock_name lock) (busy s)\<rparr>, a) = (res, s4, a')"
    by (cases "locked_section f lock callback
      (s\<lparr>busy := insert (lock_name lock) (busy s)\<rparr>, a)") auto
  have "busy s4 = insert (lock_name lock) (busy s)"
    using locked_section_state [of f lock callback
            "s\<lparr>busy := insert (lock_name lock) (busy s)\<rparr>" a] l
    by simp
  with assms l b show ?thesis
    by (simp add: withLock_def isBusy_def Let_def)
qed

text \<open>
  C8. For a caller that finds the key free, \<^verbatim>\<open>withLock\<close> returns, whatever the callback
  does and whichever database operations fail, and afterwards: \<^verbatim>\<open>isBusy\<close> is false and
  the process-local locks are as before; the unlock statement was sent after the lock
  statement; the advisory lock is not held unless the unlock statement itself failed;
  the query runner is released unless its release failed. The callback runs only in
  lock states where \<^verbatim>\<open>isBusy\<close> is true: replacing it by any callback that agrees with
  it on those states changes nothing.
\<close>

theorem withLock_releases:
  assumes "\<not> isBusy s lock"
  shows "\<exists>res s' a'. withLock f lock callback (s, a) = Some (res, s', a')
           \<and> \<not> isBusy s' lock
           \<and> busy s' = busy s
           \<and> issued s' = issued s @ [AdvisoryLock (lock_number lock),
                                      AdvisoryUnlock (lock_number lock)]
           \<and> (releaseLock_fails f \<or> lock_number lock \<notin> advisory s')
           \<and> (runner_release_fails f \<or> runners s' = runners s)
           \<and> ((\<forall>ls x. isBusy ls lock \<longrightarrow> callback ls x = callback' ls x) \<longrightarrow>
                withLock f lock callback' (s, a) = withLock f lock callback (s, a))"
proof -
  let ?s0 = "s\<lparr>busy := insert (lock_name lock) (busy s)\<rparr>"
  let ?r = "locked_section f lock callback (?s0, a)"
  let ?s' = "(fst (snd ?r))\<lparr>busy := busy s\<rparr>"
  have w: "withLock f lock callback (s, a) = Some (fst ?r, ?s', snd (snd ?r))"
    using assms by (rule withLock_Some)
  have st: "fst (snd ?r) =
     ?s0\<lparr>runners := (if runner_release_fails f then runners ?s0 + 1 else runners ?s0),
       advisory := (if releaseLock_fails f
                    then (if acquireLock_fails f then advisory ?s0
                          else insert (lock_number lock) (advisory ?s0))
                    else advisory ?s0 - {lock_number lock}),
       issued := issued ?s0 @ [AdvisoryLock (lock_number lock),
                               AdvisoryUnlock (lock_number lock)]\<rparr>"
    by (rule locked_section_state)
  have 1: "\<not> isBusy ?s' lock"
    using assms by (simp add: isBusy_def)
  have 2: "busy ?s' = busy s"
    by simp
  have 3: "issued ?s' = issued s @ [AdvisoryLock (lock_number lock),
                                    AdvisoryUnlock (lock_number lock)]"
    by (simp add: st)
  have 4: "releaseLock_fails f \<or> lock_number lock \<notin> advisory ?s'"
    by (simp add: st)
  have 5: "runner_release_fails f \<or> runners ?s' = runners s"
    by (simp add: st)
  have 6: "withLock f lock callback' (s, a) = withLock f lock callback (s, a)"
    if "\<forall>ls x. isBusy ls lock \<longrightarrow> callback ls x = callback' ls x"
  proof -
    have "isBusy ?s0 lock"
      by (simp add: isBusy_def)
    then have "locked_section f lock callback (?s0, a) = locked_section f lock callback' (?s0, a)"
      using that by (intro locked_section_callback) auto
    then show ?thesis
      using assms by (simp add: withLock_Some)
  qed
  from w 1 2 3 4 5 6 show ?thesis
    by blast
qed

text \<open>
  The statement at a callback that throws, with no database fault: the error is the
  callback's, the callback saw \<^verbatim>\<open>isBusy\<close> true, and afterwards nothing is held.
\<close>

theorem withLock_releases_witness:
  "withLock no_faults CLIPDimSize (failing_callback CLIPDimSize) (no_locks, []) =
     Some (Inl (CallbackFailed ''failed''),
           \<lparr>busy = {}, advisory = {}, runners = 0,
            issued = [AdvisoryLock 512, AdvisoryUnlock 512]\<rparr>,
           [True])
   \<and> \<not> isBusy no_locks CLIPDimSize
   \<and> \<not> isBusy (fst (snd (the (withLock no_faults CLIPDimSize (failing_callback CLIPDimSize)
                                  (no_locks, []))))) CLIPDimSize"
proof -
  have n: "\<not> isBusy no_locks CLIPDimSize"
    by (simp add: isBusy_def no_locks_def)
  have e: "withLock no_faults CLIPDimSize (failing_callback CLIPDimSize) (no_locks, []) =
     Some (Inl (CallbackFailed ''failed''),
           \<lparr>busy = {}, advisory = {}, runners = 0,
            issued = [AdvisoryLock 512, AdvisoryUnlock 512]\<rparr>,
           [True])"
    by (simp add: withLock_def locked_section_def acquireLock_def releaseLock_def
          queryRunner_release_def failing_callback_def no_locks_def no_faults_def isBusy_def
          Let_def)
  from withLock_releases [OF n, of no_faults "failing_callback CLIPDimSize" "[]"
         "failing_callback CLIPDimSize"]
  have "\<not> isBusy (fst (snd (the (withLock no_faults CLIPDimSize
          (failing_callback CLIPDimSize) (no_locks, []))))) CLIPDimSize"
    by auto
  with n e show ?thesis by blast
qed

text \<open>
  When the unlock statement fails after the callback threw, the runner is still released
  and the key is still freed; the error reported is the one of the unlock.
\<close>

lemma withLock_release_fails:
  "withLock (no_faults\<lparr>releaseLock_fails := True\<rparr>) CLIPDimSize (failing_callback CLIPDimSize)
     (no_locks, []) =
     Some (Inl ReleaseFailed,
           \<lparr>busy = {}, advisory = {512}, runners = 0,
            issued = [AdvisoryLock 512, AdvisoryUnlock 512]\<rparr>,
           [True])"
  by (simp add: withLock_def locked_section_def acquireLock_def releaseLock_def
        queryRunner_release_def failing_callback_def no_locks_def no_faults_def isBusy_def
        Let_def)

text \<open>A caller that finds the key held does not get to run the callback.\<close>

lemma withLock_waits:
  "isBusy s lock \<Longrightarrow> withLock f lock callback (s, a) = None"
  by (simp add: withLock_def isBusy_def)

section \<open>Chunked parameter collections: results\<close>

lemma chunk_list_eq [simp]:
  "chunk_list n [] = []"
  "chunk_list 0 xs = []"
  "n > 0 \<Longrightarrow> chunk_list n (x # xs) = take n (x # xs) # chunk_list n (drop n (x # xs))"
  by simp_all

declare chunk_list.simps [simp del]

text \<open>
  Within the bound the wrapper is the method itself.
\<close>

lemma Chunked_within_bound:
  "within_chunk_size (arg_at args (case paramIndex_opt of None \<Rightarrow> 0 | Some i \<Rightarrow> i)) chunk_size
     \<Longrightarrow> Chunked chunk_size paramIndex_opt mergeFn originalMethod args = originalMethod args"
  by (simp add: Chunked_def)

lemma await_all_undefined:
  "await_all originalMethod as = Inr results \<Longrightarrow> results = replicate (length as) Undefined"
  by (induction as arbitrary: results) (auto split: sum.splits)

lemma flatten_undefined:
  "flatten (JArray (replicate k Undefined)) = JArray (replicate k Undefined)"
  by (induction k) auto

text \<open>
  Beyond the bound, a successful call returns the merge of one \<^verbatim>\<open>undefined\<close> per chunk,
  whatever the method returned for the chunks and whatever the merge function is.
\<close>

lemma Chunked_beyond_bound:
  assumes "\<not> within_chunk_size (arg_at args (case paramIndex_opt of None \<Rightarrow> 0 | Some i \<Rightarrow> i))
               chunk_size"
      and "Chunked chunk_size paramIndex_opt mergeFn originalMethod args = Inr result"
  shows "\<exists>k. result = (case mergeFn of
                          Some merge \<Rightarrow> merge (JArray (replicate k Undefined))
                        | None \<Rightarrow> JArray (replicate k Undefined))"
  using assms
  by (auto simp: Chunked_def Let_def split: option.splits sum.splits dest!: await_all_undefined)

text \<open>
  Beyond the bound, whatever the method returns for the chunks is dropped: a successful
  \<^verbatim>\<open>ChunkedArray\<close> call returns one \<^verbatim>\<open>undefined\<close> per chunk.
\<close>

lemma ChunkedArray_beyond_bound:
  assumes "\<not> within_chunk_size (arg_at args 0) chunk_size"
      and "ChunkedArray chunk_size None originalMethod args = Inr result"
  shows "\<exists>k. result = JArray (replicate k Undefined)"
  using assms
  by (auto simp: ChunkedArray_def Chunked_def Let_def flatten_undefined
        split: option.splits sum.splits dest!: await_all_undefined)

text \<open>
  C5 (fails on the code). With a bound of 2 and the array [1, 2, 3], the method is called
  on [1, 2] and on [3], but \<^verbatim>\<open>ChunkedArray\<close> returns [undefined, undefined], not the
  concatenation [1, 2, 3] that a single call returns.
\<close>

theorem ChunkedArray_drops_results:
  "ChunkedArray 2 None echo_method [JArray [JNum 1, JNum 2, JNum 3]]
     = Inr (JArray [Undefined, Undefined])
   \<and> chunks (JArray [JNum 1, JNum 2, JNum 3]) 2
     = Some [JArray [JNum 1, JNum 2], JArray [JNum 3]]
   \<and> echo_method [JArray [JNum 1, JNum 2, JNum 3]] = Inr (JArray [JNum 1, JNum 2, JNum 3])
   \<and> ChunkedArray 2 None echo_method [JArray [JNum 1, JNum 2]]
     = Inr (JArray [JNum 1, JNum 2])"
  by (simp add: ChunkedArray_def Chunked_def echo_method_def arg_at_def)

section \<open>Face search: results\<close>

lemma length_take_opt: "length (take_opt (Some n) xs) \<le> n"
  by (simp add: take_opt_def)

lemma distances_cte_sorted:
  "sorted (map (\<lambda>f. distance_op (cell_of f ''embedding'') embedding)
     (cte_rows distance_op faces userIds embedding limit hasPerson))"
proof -
  have "sorted (map k (take_opt limit (sort_key k xs)))" for k :: "face_row \<Rightarrow> 'a" and xs
  proof (cases limit)
    case None
    then show ?thesis by (simp add: take_opt_def)
  next
    case (Some n)
    have "sorted (take n (map k (sort_key k xs)))"
      by (intro sorted_wrt_take) simp
    then show ?thesis
      using Some by (simp add: take_opt_def take_map)
  qed
  then show ?thesis
    by (simp add: cte_rows_def Let_def)
qed

lemma set_take_opt: "set (take_opt limit xs) \<subseteq> set xs"
  by (cases limit) (auto simp: take_opt_def dest: in_set_takeD)

lemma cte_rows_person:
  "truthy_bool hasPerson \<Longrightarrow> f \<in> set (cte_rows distance_op faces userIds embedding limit hasPerson)
     \<Longrightarrow> cell_of f ''personId'' \<noteq> Null"
  using set_take_opt [of limit] by (fastforce simp: cte_rows_def Let_def)

text \<open>
  For a truthy \<^verbatim>\<open>numResults\<close> the search does what C6 says: it fails on an invalid
  number, and otherwise returns at most \<open>max numResults 64\<close> rows, in ascending order of
  distance, none farther than \<^verbatim>\<open>maxDistance\<close>, each with the face columns but
  \<^verbatim>\<open>embedding\<close>.
\<close>

lemma searchFaces_truthy:
  assumes "truthy_number (Some n)"
      and "searchFaces ownColumns distance_op faces userIds embedding (Some n) maxDistance hasPerson
             = Inr rows"
  shows "isValidInteger n (Some 1) None"
    and "length rows \<le> candidate_limit n"
    and "sorted (map distance rows)"
    and "\<forall>r \<in> set rows. distance r \<le> maxDistance"
    and "\<forall>r \<in> set rows. map fst (face r) = filter (\<lambda>c. c \<noteq> ''embedding'') ownColumns"
proof -
  let ?k = "\<lambda>f. distance_op (cell_of f ''embedding'') embedding"
  let ?cte = "cte_rows distance_op faces userIds embedding (Some (candidate_limit n)) hasPerson"
  show v: "isValidInteger n (Some 1) None"
    using assms by (auto simp: searchFaces_def split: if_splits)
  have rows: "rows = map (\<lambda>f. \<lparr>face = map (\<lambda>c. (c, cell_of f c)) (faceColumns ownColumns),
                              distance = ?k f\<rparr>) (filter (\<lambda>f. ?k f \<le> maxDistance) ?cte)"
    using assms v by (simp add: searchFaces_def face_results_def)
  have "length ?cte \<le> candidate_limit n"
    by (simp add: cte_rows_def Let_def length_take_opt)
  moreover have "length (filter (\<lambda>f. ?k f \<le> maxDistance) ?cte) \<le> length ?cte"
    by (rule length_filter_le)
  ultimately have "length (filter (\<lambda>f. ?k f \<le> maxDistance) ?cte) \<le> candidate_limit n"
    by (rule order_trans [rotated])
  then show "length rows \<le> candidate_limit n"
    by (simp only: rows length_map)
  have "sorted (map ?k (filter (\<lambda>f. ?k f \<le> maxDistance) ?cte))"
    using distances_cte_sorted [of distance_op embedding faces userIds "Some (candidate_limit n)" hasPerson]
    by (simp add: sorted_filter)
  then show "sorted (map distance rows)"
    by (simp add: rows comp_def)
  show "\<forall>r \<in> set rows. distance r \<le> maxDistance"
    by (auto simp: rows)
  show "\<forall>r \<in> set rows. map fst (face r) = filter (\<lambda>c. c \<noteq> ''embedding'') ownColumns"
    by (auto simp: rows faceColumns_def comp_def)
qed

text \<open>A falsy \<^verbatim>\<open>numResults\<close> is neither validated nor applied: no limit is set.\<close>

lemma searchFaces_falsy:
  assumes "\<not> truthy_number numResults"
  shows "result_count (searchFaces ownColumns distance_op faces userIds embedding numResults
                         maxDistance hasPerson) =
           Inr (length (filter (\<lambda>f. distance_op (cell_of f ''embedding'') embedding \<le> maxDistance)
                  (cte_rows distance_op faces userIds embedding None hasPerson)))"
  using assms by (simp add: searchFaces_def result_count_def face_results_def)

text \<open>
  C6 (fails on the code). With \<^verbatim>\<open>numResults = 0\<close>, which \<^verbatim>\<open>searchCLIP\<close> rejects, and
  sixty-five faces of the owner within \<^verbatim>\<open>maxDistance\<close>, \<^verbatim>\<open>searchFaces\<close> returns all
  sixty-five rows: more than \<open>max 0 64 = 64\<close>.
\<close>

theorem searchFaces_zero_unbounded:
  "result_count (searchFaces [''id'', ''personId'', ''embedding''] zero_distance
     (replicate 65 one_face) [''u''] [] (Some (Num 0)) 1 None) = Inr 65"
proof -
  have c: "cte_rows zero_distance (replicate 65 one_face) [''u''] [] None None
             = sort_key (\<lambda>f. zero_distance (cell_of f ''embedding'') []) (replicate 65 one_face)"
    by (simp add: cte_rows_def Let_def take_opt_def truthy_bool_def one_face_def)
  have f: "\<not> truthy_number (Some (Num 0))"
    by simp
  have "result_count (searchFaces [''id'', ''personId'', ''embedding''] zero_distance
     (replicate 65 one_face) [''u''] [] (Some (Num 0)) 1 None) =
     Inr (length (filter (\<lambda>f. zero_distance (cell_of f ''embedding'') [] \<le> 1)
                  (cte_rows zero_distance (replicate 65 one_face) [''u''] [] None None)))"
    using f by (rule searchFaces_falsy)
  also have "\<dots> = Inr 65"
    by (simp add: c zero_distance_def)
  finally show ?thesis .
qed

end
